theory Spec2Isabelle
  imports Complex_Main
begin

chapter \<open>Land plots on a map: plot service, mock backend and map view\<close>

text \<open>
  The functions of \<open>plotService.ts\<close>, \<open>mockDataService.ts\<close> and the map view
  (\<open>MapView.tsx\<close>) that normalise and validate plot records, style and label the plots,
  gate requests on the health of the remote source and submit an order, as functions on
  explicit state; then what the specification says of them, proved or refuted.
\<close>

section \<open>JavaScript values\<close>

text \<open>
  The sources are TypeScript; at run time the types are erased and the records that
  arrive from the remote source are arbitrary JSON. A number is a double: a finite
  value (read as the real number it denotes), NaN or an infinity. Comparisons of finite
  doubles agree with the comparisons of the reals they denote; where arithmetic is done
  (the centroid), the rounding of each operation is written out. An object is the list of
  its entries, with distinct keys; a string is a list of characters with codes below 256.
\<close>

datatype jsnum = Fin real | NaN | PosInf | NegInf

datatype jsval =
    JUndefined
  | JNull
  | JBool bool
  | JNum jsnum
  | JStr string
  | JArr "jsval list"
  | JObj "(string \<times> jsval) list"

text \<open>Truthiness, as \<open>!v\<close>, \<open>v || d\<close> and \<open>if (v)\<close> read it.\<close>

fun truthy :: "jsval \<Rightarrow> bool" where
  "truthy JUndefined = False"
| "truthy JNull = False"
| "truthy (JBool b) = b"
| "truthy (JNum (Fin r)) = (r \<noteq> 0)"
| "truthy (JNum NaN) = False"
| "truthy (JNum PosInf) = True"
| "truthy (JNum NegInf) = True"
| "truthy (JStr s) = (s \<noteq> [])"
| "truthy (JArr xs) = True"
| "truthy (JObj kvs) = True"

text \<open>\<open>a || d\<close>\<close>

definition js_or :: "jsval \<Rightarrow> jsval \<Rightarrow> jsval" where
  "js_or a d = (if truthy a then a else d)"

text \<open>
  \<open>a === b\<close>. NaN differs from itself; the other primitives compare by value. Arrays
  and objects compare by reference in JavaScript, which a value model does not carry:
  they are compared by value here, and identifiers are primitives in every input used.
\<close>

fun strict_eq :: "jsval \<Rightarrow> jsval \<Rightarrow> bool" where
  "strict_eq (JNum NaN) b = False"
| "strict_eq a b = (a = b)"

text \<open>
  Property read \<open>v.k\<close> on a value that is neither \<open>undefined\<close> nor \<open>null\<close>, for the
  keys the sources read: a key of an object, the \<open>length\<close> of an array or a string, and
  \<open>undefined\<close> otherwise (none of the other keys is a built-in property).
\<close>

fun js_get :: "jsval \<Rightarrow> string \<Rightarrow> jsval" where
  "js_get (JObj kvs) k = (case map_of kvs k of None \<Rightarrow> JUndefined | Some v \<Rightarrow> v)"
| "js_get (JArr xs) k = (if k = ''length'' then JNum (Fin (real (length xs))) else JUndefined)"
| "js_get (JStr s) k = (if k = ''length'' then JNum (Fin (real (length s))) else JUndefined)"
| "js_get v k = JUndefined"

text \<open>Reading a property of \<open>undefined\<close> or \<open>null\<close> raises a TypeError: \<open>None\<close>.\<close>

definition get_prop :: "jsval \<Rightarrow> string \<Rightarrow> jsval option" where
  "get_prop v k = (if v = JUndefined \<or> v = JNull then None else Some (js_get v k))"

section \<open>Plots and orders\<close>

text \<open>
  The entity types of \<open>types/land\<close>, with the fields the sources read and write. The
  loosely checked fields hold any value at run time, so they are \<open>jsval\<close>s.
\<close>

record plot =
  id :: jsval
  plot_code :: jsval
  status :: string
  area_hectares :: jsnum
  district :: jsval
  ward :: jsval
  village :: jsval
  geometry :: jsval
  attributes :: jsval
  created_at :: jsval
  updated_at :: jsval

text \<open>Applicant data; \<open>None\<close> is an absent (undefined) field.\<close>

record order_data =
  first_name :: "string option"
  last_name :: "string option"
  customer_phone :: "string option"
  customer_email :: "string option"
  customer_id_number :: "string option"
  intended_use :: "string option"

record order =
  order_id :: string
  order_plot_id :: jsval
  order_plot_code :: jsval
  order_first_name :: "string option"
  order_last_name :: "string option"
  order_customer_phone :: "string option"
  order_customer_email :: "string option"
  order_customer_id_number :: "string option"
  order_intended_use :: "string option"
  order_status :: string
  order_created_at :: string
  order_updated_at :: string

section \<open>The mock backend (mockDataService.ts)\<close>

text \<open>The module state: \<open>mockPlots\<close>, \<open>mockOrders\<close>, \<open>orderIdCounter\<close>.\<close>

record mock_state =
  mockPlots :: "plot list"
  mockOrders :: "order list"
  orderIdCounter :: nat

text \<open>Decimal text of a counter, for the template \<open>order-${orderIdCounter++}\<close>.\<close>

definition digit_char :: "nat \<Rightarrow> char" where
  "digit_char d = char_of (48 + d)"

fun string_of_nat :: "nat \<Rightarrow> string" where
  "string_of_nat n =
     (if n < 10 then [digit_char n] else string_of_nat (n div 10) @ [digit_char (n mod 10)])"

declare string_of_nat.simps [simp del]

text \<open>
  \<open>plot.status = 'pending'; plot.updated_at = ...\<close> on the object that
  \<open>mockPlots.find\<close> returned: the first plot with the identifier is updated in place.
\<close>

fun update_first :: "('a \<Rightarrow> bool) \<Rightarrow> ('a \<Rightarrow> 'a) \<Rightarrow> 'a list \<Rightarrow> 'a list" where
  "update_first P f [] = []"
| "update_first P f (x # xs) = (if P x then f x # xs else x # update_first P f xs)"

text \<open>
  \<open>MockDataService.createOrder\<close>. The three readings of the clock
  (\<open>new Date().toISOString()\<close>) are parameters. A thrown Error is \<open>Inl\<close> of its message.
\<close>

definition MockDataService_createOrder ::
  "jsval \<Rightarrow> order_data \<Rightarrow> string \<Rightarrow> string \<Rightarrow> string \<Rightarrow> mock_state
     \<Rightarrow> (string + order) \<times> mock_state" where
  "MockDataService_createOrder plotId orderData t1 t2 t3 s =
     (case find (\<lambda>p. strict_eq (id p) plotId) (mockPlots s) of
        None \<Rightarrow> (Inl ''Plot not found'', s)
      | Some p \<Rightarrow>
          if status p \<noteq> ''available''
          then (Inl (''Plot is not available for ordering. Current status: '' @ status p), s)
          else
            let ord = \<lparr> order_id = ''order-'' @ string_of_nat (orderIdCounter s),
                        order_plot_id = plotId,
                        order_plot_code = plot_code p,
                        order_first_name = first_name orderData,
                        order_last_name = last_name orderData,
                        order_customer_phone = customer_phone orderData,
                        order_customer_email = customer_email orderData,
                        order_customer_id_number = customer_id_number orderData,
                        order_intended_use = intended_use orderData,
                        order_status = ''pending'',
                        order_created_at = t1,
                        order_updated_at = t2 \<rparr>
            in (Inr ord,
                s\<lparr> mockPlots :=
                      update_first (\<lambda>p. strict_eq (id p) plotId)
                        (\<lambda>p. p\<lparr> status := ''pending'', updated_at := JStr t3 \<rparr>) (mockPlots s),
                    mockOrders := mockOrders s @ [ord],
                    orderIdCounter := Suc (orderIdCounter s) \<rparr>))"

text \<open>The first plot of the initial \<open>mockPlots\<close> array, and a second one that is taken.\<close>

definition polygon_geometry :: "(real \<times> real) list \<Rightarrow> jsval" where
  "polygon_geometry ring =
     JObj [(''type'', JStr ''Polygon''),
           (''coordinates'',
              JArr [JArr (map (\<lambda>(lng, lat). JArr [JNum (Fin lng), JNum (Fin lat)]) ring)])]"

definition mock_plot_001 :: plot where
  "mock_plot_001 =
     \<lparr> id = JStr ''plot-001'', plot_code = JStr ''DSM/KINONDONI/001'', status = ''available'',
       area_hectares = Fin 2.5, district = JStr ''Kinondoni'', ward = JStr ''Msasani'',
       village = JStr ''Msasani Bonde la Mpunga'',
       geometry = polygon_geometry
         [(39.2083, -6.7833), (39.2093, -6.7833), (39.2093, -6.7843), (39.2083, -6.7843),
          (39.2083, -6.7833)],
       attributes = JObj [(''land_use'', JStr ''residential''), (''soil_type'', JStr ''sandy''),
                          (''elevation'', JNum (Fin 45))],
       created_at = JStr ''2024-01-15T10:00:00Z'', updated_at = JStr ''2024-01-15T10:00:00Z'' \<rparr>"

definition mock_plot_002 :: plot where
  "mock_plot_002 =
     \<lparr> id = JStr ''plot-002'', plot_code = JStr ''DSM/KINONDONI/002'', status = ''taken'',
       area_hectares = Fin 1.8, district = JStr ''Kinondoni'', ward = JStr ''Msasani'',
       village = JStr ''Msasani Bonde la Mpunga'',
       geometry = polygon_geometry
         [(39.2093, -6.7833), (39.2103, -6.7833), (39.2103, -6.7843), (39.2093, -6.7843),
          (39.2093, -6.7833)],
       attributes = JObj [(''land_use'', JStr ''residential''), (''soil_type'', JStr ''clay''),
                          (''elevation'', JNum (Fin 42))],
       created_at = JStr ''2024-01-15T10:00:00Z'', updated_at = JStr ''2024-01-20T14:30:00Z'' \<rparr>"

definition initial_mock :: mock_state where
  "initial_mock = \<lparr> mockPlots = [mock_plot_001, mock_plot_002], mockOrders = [], orderIdCounter = 1 \<rparr>"

definition sample_applicant :: order_data where
  "sample_applicant =
     \<lparr> first_name = Some ''Asha'', last_name = Some ''Mrisho'',
       customer_phone = Some ''+255700000000'', customer_email = Some ''asha@example.org'',
       customer_id_number = None, intended_use = Some ''residential'' \<rparr>"

section \<open>The plot service (plotService.ts)\<close>

subsection \<open>Status normalisation\<close>

text \<open>
  \<open>normalizeStatus\<close>: one of the three known strings is returned as it is, anything
  else (another string, \<open>null\<close>, \<open>undefined\<close>, a value of another type) becomes
  "pending".
\<close>

definition normalizeStatus :: "jsval \<Rightarrow> string" where
  "normalizeStatus st =
     (if strict_eq st (JStr ''available'') \<or> strict_eq st (JStr ''taken'')
         \<or> strict_eq st (JStr ''pending'')
      then (case st of JStr s \<Rightarrow> s | _ \<Rightarrow> ''pending'')
      else ''pending'')"

subsection \<open>Connection health\<close>

text \<open>The module variables \<open>lastHealthCheck\<close> and \<open>isHealthy\<close>; times are milliseconds.\<close>

record health_state =
  lastHealthCheck :: int
  isHealthy :: bool

definition initial_health :: health_state where
  "initial_health = \<lparr> lastHealthCheck = 0, isHealthy = True \<rparr>"

text \<open>What the probe \<open>fetch(API_BASE/health)\<close> does: it answers (with \<open>response.ok\<close>) or throws.\<close>

datatype probe_outcome = ProbeResponse bool | ProbeThrows

text \<open>The requests the service sends, in the order it sends them.\<close>

datatype request =
    HealthProbe
  | GetAllPlots
  | GetPlotById jsval
  | SearchPlots
  | PostOrder jsval order_data

text \<open>
  \<open>checkApiHealth\<close>: the result, the new module state and the probes sent. \<open>use_mock\<close>
  is \<open>USE_MOCK_DATA\<close>, \<open>now\<close> is \<open>Date.now()\<close>, and \<open>probe\<close> is what the probe does if
  it is sent.
\<close>

definition checkApiHealth ::
  "bool \<Rightarrow> int \<Rightarrow> probe_outcome \<Rightarrow> health_state \<Rightarrow> bool \<times> health_state \<times> request list" where
  "checkApiHealth use_mock now probe h =
     (if use_mock then (True, h, [])
      else if now - lastHealthCheck h < 30000 \<and> isHealthy h then (isHealthy h, h, [])
      else (case probe of
              ProbeResponse ok \<Rightarrow>
                (ok, \<lparr> lastHealthCheck = now, isHealthy = ok \<rparr>, [HealthProbe])
            | ProbeThrows \<Rightarrow>
                (False, \<lparr> lastHealthCheck = now, isHealthy = False \<rparr>, [HealthProbe])))"

text \<open>
  What a request does once it is sent: \<open>ResponseJson v\<close> is an OK response whose body
  parses to \<open>v\<close>; \<open>RequestFailed m\<close> is the Error with message \<open>m\<close> that
  \<open>fetchWithErrorHandling\<close> throws for a transport failure, a timeout or a status that is
  not OK, or that \<open>response.json()\<close> throws.
\<close>

datatype fetch_outcome = ResponseJson jsval | RequestFailed string

definition fetchWithErrorHandling ::
  "bool \<Rightarrow> int \<Rightarrow> probe_outcome \<Rightarrow> request \<Rightarrow> fetch_outcome \<Rightarrow> health_state
     \<Rightarrow> (string + jsval) \<times> health_state \<times> request list" where
  "fetchWithErrorHandling use_mock now probe req outcome h =
     (case checkApiHealth use_mock now probe h of
        (healthy, h', sent) \<Rightarrow>
          if \<not> healthy
          then (Inl ''API server is not responding. Please check your connection and try again.'',
                h', sent)
          else (case outcome of
                  ResponseJson v \<Rightarrow> (Inr v, h', sent @ [req])
                | RequestFailed m \<Rightarrow> (Inl m, h', sent @ [req])))"

subsection \<open>Creating an order\<close>

text \<open>
  A string is a list of characters with codes below 256. JavaScript's white space
  (\<open>\s\<close> in a regular expression, and what \<open>trim\<close> removes) in that range: tab, line
  feed, vertical tab, form feed, carriage return, space and the no-break space.
\<close>

definition is_js_space :: "char \<Rightarrow> bool" where
  "is_js_space c = (of_char c \<in> {9, 10, 11, 12, 13, 32, 160 :: nat})"

definition js_trim :: "string \<Rightarrow> string" where
  "js_trim s = rev (dropWhile is_js_space (rev (dropWhile is_js_space s)))"

text \<open>\<open>!field?.trim()\<close>: the field is absent, empty or white space only.\<close>

definition blank_field :: "string option \<Rightarrow> bool" where
  "blank_field f = (case f of None \<Rightarrow> True | Some s \<Rightarrow> js_trim s = [])"

text \<open>
  \<open>/^[^\s@]+@[^\s@]+\.[^\s@]+$/.test(s)\<close>: a non-empty run of characters that are neither
  white space nor \<open>@\<close>, then \<open>@\<close>, then to the end of the string only such characters,
  with a dot among them that is neither the first nor the last one.
\<close>

definition email_char :: "char \<Rightarrow> bool" where
  "email_char c = (\<not> is_js_space c \<and> c \<noteq> CHR ''@'')"

definition emailRegex_test :: "string \<Rightarrow> bool" where
  "emailRegex_test s =
     (takeWhile email_char s \<noteq> [] \<and>
      (case dropWhile email_char s of
         [] \<Rightarrow> False
       | c # host \<Rightarrow>
           c = CHR ''@'' \<and> list_all email_char host \<and> CHR ''.'' \<in> set (butlast (tl host))))"

text \<open>The checks at the head of \<open>createOrder\<close>, in order: the message of the Error thrown.\<close>

definition createOrder_validation :: "order_data \<Rightarrow> string option" where
  "createOrder_validation orderData =
     (if blank_field (first_name orderData) then Some ''First name is required''
      else if blank_field (last_name orderData) then Some ''Last name is required''
      else if blank_field (customer_phone orderData) then Some ''Customer phone is required''
      else if blank_field (customer_email orderData) then Some ''Customer email is required''
      else if \<not> emailRegex_test (the (customer_email orderData))
      then Some ''Please enter a valid email address''
      else None)"

text \<open>
  The service state is the health variables and, for the mock branch, the mock backend's
  state. The environment of one call: the clock, what the probe and the request do if they
  are sent, the three time stamps the mock backend reads, and the message of the TypeError
  that the engine raises when a property of \<open>null\<close> is read (its wording differs
  between engines).
\<close>

record service_state =
  health :: health_state
  mock :: mock_state

record env =
  env_now :: int
  env_probe :: probe_outcome
  env_exchange :: fetch_outcome
  env_t1 :: string
  env_t2 :: string
  env_t3 :: string
  env_null_read :: string

datatype order_result = MockOrder order | ApiOrder jsval

text \<open>
  \<open>PlotService.createOrder\<close>. After \<open>response.json()\<close> the code reads \<open>order.id\<close>
  for its log line, which raises a TypeError when the body is \<open>null\<close>. The \<open>catch\<close>
  block rethrows the error it caught, so an error is the message of the original Error.
\<close>

definition PlotService_createOrder ::
  "bool \<Rightarrow> env \<Rightarrow> jsval \<Rightarrow> order_data \<Rightarrow> service_state
     \<Rightarrow> (string + order_result) \<times> service_state \<times> request list" where
  "PlotService_createOrder use_mock e plotId orderData svc =
     (if use_mock
      then (case MockDataService_createOrder plotId orderData (env_t1 e) (env_t2 e) (env_t3 e)
                   (mock svc) of
              (Inl m, ms) \<Rightarrow> (Inl m, svc\<lparr> mock := ms \<rparr>, [])
            | (Inr ord, ms) \<Rightarrow> (Inr (MockOrder ord), svc\<lparr> mock := ms \<rparr>, []))
      else (case createOrder_validation orderData of
              Some m \<Rightarrow> (Inl m, svc, [])
            | None \<Rightarrow>
                (case fetchWithErrorHandling use_mock (env_now e) (env_probe e)
                        (PostOrder plotId orderData) (env_exchange e) (health svc) of
                   (Inl m, h', sent) \<Rightarrow> (Inl m, svc\<lparr> health := h' \<rparr>, sent)
                 | (Inr v, h', sent) \<Rightarrow>
                     (case get_prop v ''id'' of
                        None \<Rightarrow> (Inl (env_null_read e), svc\<lparr> health := h' \<rparr>, sent)
                      | Some logged \<Rightarrow> (Inr (ApiOrder v), svc\<lparr> health := h' \<rparr>, sent)))))"

subsection \<open>Loading plots\<close>

text \<open>
  \<open>parseFloat(v)\<close> parses the longest numeric prefix of the text of \<open>v\<close>. The text of
  a number parses back to the number; \<open>undefined\<close>, \<open>null\<close>, a boolean and an object
  have a text with no numeric prefix; the text of an array starts with the text of its
  first element, followed by a comma or the end. The parser of strings is the parameter
  \<open>ps\<close>.
\<close>

fun parseFloat :: "(string \<Rightarrow> jsnum) \<Rightarrow> jsval \<Rightarrow> jsnum" where
  "parseFloat ps (JNum n) = n"
| "parseFloat ps (JStr s) = ps s"
| "parseFloat ps (JArr []) = NaN"
| "parseFloat ps (JArr (x # xs)) = parseFloat ps x"
| "parseFloat ps v = NaN"

text \<open>\<open>n || 0\<close> and \<open>Math.max(0, n)\<close> on numbers.\<close>

definition num_or_zero :: "jsnum \<Rightarrow> jsnum" where
  "num_or_zero n = (case n of NaN \<Rightarrow> Fin 0 | _ \<Rightarrow> n)"

definition math_max0 :: "jsnum \<Rightarrow> jsnum" where
  "math_max0 n = (case n of Fin r \<Rightarrow> Fin (max 0 r) | NaN \<Rightarrow> NaN | PosInf \<Rightarrow> PosInf | NegInf \<Rightarrow> Fin 0)"

text \<open>
  The callback of \<open>data.features.map\<close> in \<open>getAllPlots\<close>: \<open>None\<close> is the \<open>null\<close> it
  returns for a feature it drops (also from its \<open>catch\<close>, when the feature itself is
  \<open>null\<close>). \<open>now1\<close> and \<open>now2\<close> are the readings of the clock for absent time stamps.
\<close>

definition getAllPlots_feature :: "(string \<Rightarrow> jsnum) \<Rightarrow> string \<Rightarrow> string \<Rightarrow> jsval \<Rightarrow> plot option" where
  "getAllPlots_feature ps now1 now2 feature =
     (case get_prop feature ''properties'' of
        None \<Rightarrow> None
      | Some props \<Rightarrow>
          if \<not> truthy props \<or> \<not> truthy (js_get feature ''geometry'') then None
          else if \<not> truthy (js_get props ''id'') \<or> \<not> truthy (js_get props ''plot_code'') then None
          else if \<not> truthy (js_get (js_get feature ''geometry'') ''coordinates'')
                  \<or> strict_eq (js_get (js_get (js_get feature ''geometry'') ''coordinates'') ''length'')
                       (JNum (Fin 0))
          then None
          else Some
            \<lparr> id = js_get props ''id'',
              plot_code = js_get props ''plot_code'',
              status = normalizeStatus (js_get props ''status''),
              area_hectares = math_max0 (num_or_zero (parseFloat ps (js_get props ''area_hectares''))),
              district = js_or (js_get props ''district'') (JStr ''Unknown''),
              ward = js_or (js_get props ''ward'') (JStr ''Unknown''),
              village = js_or (js_get props ''village'') (JStr ''Unknown''),
              geometry = js_get feature ''geometry'',
              attributes = js_or (js_get props ''attributes'') (JObj []),
              created_at = js_or (js_get props ''created_at'') (JStr now1),
              updated_at = js_or (js_get props ''updated_at'') (JStr now2) \<rparr>)"

text \<open>
  The operations below are the branch for a configured backend (\<open>USE_MOCK_DATA\<close> false);
  with mock data each call is handed to the mock backend. The \<open>catch\<close> block of
  \<open>getAllPlots\<close> wraps every failure in an Error with a user-facing message; the
  cause is kept here and the message text is not modelled.
\<close>

datatype load_error =
    TransportError string
  | InvalidResponseFormat
  | NotAFeatureCollection
  | InvalidFeaturesArray

definition getAllPlots ::
  "(string \<Rightarrow> jsnum) \<Rightarrow> (nat \<Rightarrow> string \<times> string) \<Rightarrow> int \<Rightarrow> probe_outcome \<Rightarrow> fetch_outcome
     \<Rightarrow> health_state \<Rightarrow> (load_error + plot list) \<times> health_state \<times> request list" where
  "getAllPlots ps clock now probe outcome h =
     (case fetchWithErrorHandling False now probe GetAllPlots outcome h of
        (Inl m, h', sent) \<Rightarrow> (Inl (TransportError m), h', sent)
      | (Inr data, h', sent) \<Rightarrow>
          (if \<not> truthy data \<or> \<not> (case data of JObj _ \<Rightarrow> True | JArr _ \<Rightarrow> True | _ \<Rightarrow> False)
           then Inl InvalidResponseFormat
           else if \<not> strict_eq (js_get data ''type'') (JStr ''FeatureCollection'')
           then Inl NotAFeatureCollection
           else (case js_get data ''features'' of
                   JArr features \<Rightarrow>
                     Inr (List.map_filter
                            (\<lambda>(i, feature).
                               getAllPlots_feature ps (fst (clock i)) (snd (clock i)) feature)
                            (enumerate 0 features))
                 | _ \<Rightarrow> Inl InvalidFeaturesArray),
           h', sent))"

text \<open>
  The object \<open>getPlotById\<close> and the callback of \<open>searchPlots\<close> build from a feature whose
  \<open>properties\<close> are \<open>props\<close>.
\<close>

definition plot_of_feature :: "(string \<Rightarrow> jsnum) \<Rightarrow> jsval \<Rightarrow> jsval \<Rightarrow> plot" where
  "plot_of_feature ps props feature =
     \<lparr> id = js_get props ''id'',
       plot_code = js_get props ''plot_code'',
       status = normalizeStatus (js_get props ''status''),
       area_hectares = parseFloat ps (js_get props ''area_hectares''),
       district = js_get props ''district'',
       ward = js_get props ''ward'',
       village = js_get props ''village'',
       geometry = js_get feature ''geometry'',
       attributes = js_or (js_get props ''attributes'') (JObj []),
       created_at = js_get props ''created_at'',
       updated_at = js_get props ''updated_at'' \<rparr>"

text \<open>\<open>getPlotById\<close>: \<open>None\<close> is the \<open>null\<close> it returns, also from its \<open>catch\<close>.\<close>

definition getPlotById ::
  "(string \<Rightarrow> jsnum) \<Rightarrow> int \<Rightarrow> probe_outcome \<Rightarrow> fetch_outcome \<Rightarrow> jsval \<Rightarrow> health_state
     \<Rightarrow> plot option \<times> health_state \<times> request list" where
  "getPlotById ps now probe outcome plotId h =
     (case fetchWithErrorHandling False now probe (GetPlotById plotId) outcome h of
        (Inl m, h', sent) \<Rightarrow> (None, h', sent)
      | (Inr feature, h', sent) \<Rightarrow>
          ((case get_prop feature ''properties'' of
              None \<Rightarrow> None
            | Some props \<Rightarrow>
                if \<not> truthy props \<or> \<not> truthy (js_get feature ''geometry'') then None
                else Some (plot_of_feature ps props feature)),
           h', sent))"

text \<open>
  \<open>searchPlots\<close>: a TypeError anywhere (the data or a feature is \<open>null\<close>, the features
  are not an array, the properties of a feature are absent) fails the whole search.
\<close>

datatype search_error = SearchTransportError string | SearchNotAFeatureCollection | SearchTypeError

definition searchPlots_feature :: "(string \<Rightarrow> jsnum) \<Rightarrow> jsval \<Rightarrow> plot option" where
  "searchPlots_feature ps feature =
     (case get_prop feature ''properties'' of
        None \<Rightarrow> None
      | Some props \<Rightarrow>
          if props = JUndefined \<or> props = JNull then None
          else Some (plot_of_feature ps props feature))"

definition searchPlots ::
  "(string \<Rightarrow> jsnum) \<Rightarrow> int \<Rightarrow> probe_outcome \<Rightarrow> fetch_outcome \<Rightarrow> health_state
     \<Rightarrow> (search_error + plot list) \<times> health_state \<times> request list" where
  "searchPlots ps now probe outcome h =
     (case fetchWithErrorHandling False now probe SearchPlots outcome h of
        (Inl m, h', sent) \<Rightarrow> (Inl (SearchTransportError m), h', sent)
      | (Inr data, h', sent) \<Rightarrow>
          ((case get_prop data ''type'' of
              None \<Rightarrow> Inl SearchTypeError
            | Some ty \<Rightarrow>
                if \<not> strict_eq ty (JStr ''FeatureCollection'') then Inl SearchNotAFeatureCollection
                else (case js_get data ''features'' of
                        JArr features \<Rightarrow>
                          (case those (map (searchPlots_feature ps) features) of
                             None \<Rightarrow> Inl SearchTypeError
                           | Some ps' \<Rightarrow> Inr ps')
                      | _ \<Rightarrow> Inl SearchTypeError)),
           h', sent))"

section \<open>The map view (MapView.tsx)\<close>

subsection \<open>Styles\<close>

text \<open>The path options of a plot's layer.\<close>

record path_style =
  weight :: nat
  color :: string
  fillOpacity :: real
  opacity :: real
  fillColor :: string
  dashArray :: "string option"

definition getPlotStyle :: "string \<Rightarrow> bool \<Rightarrow> path_style" where
  "getPlotStyle st isHovered =
     (let baseStyle = \<lparr> weight = (if isHovered then 4 else 2), color = ''#ffffff'',
                         fillOpacity = (if isHovered then 0.9 else 0.7), opacity = 1,
                         fillColor = [], dashArray = None \<rparr>
      in if st = ''available'' then baseStyle\<lparr> fillColor := ''#10B981'', dashArray := None \<rparr>
         else if st = ''taken''
         then baseStyle\<lparr> fillColor := ''#EF4444'',
                         fillOpacity := (if isHovered then 0.8 else 0.6), dashArray := None \<rparr>
         else if st = ''pending''
         then baseStyle\<lparr> fillColor := ''#F59E0B'', dashArray := Some ''8,4'' \<rparr>
         else baseStyle\<lparr> fillColor := ''#6B7280'', dashArray := None \<rparr>)"

text \<open>
  The effect on \<open>selectedPlotId\<close>: every layer whose feature has the selected identifier
  gets the style \<open>{...getPlotStyle(status), weight: 4, color: "#3B82F6"}\<close>. A layer is
  its feature's identifier and status and its current style; \<open>None\<close> is an absent layer
  group or an absent identifier.
\<close>

record layer =
  feature_id :: jsval
  feature_status :: string
  layer_style :: path_style

definition selectedStyle :: "string \<Rightarrow> path_style" where
  "selectedStyle st = (getPlotStyle st False)\<lparr> weight := 4, color := ''#3B82F6'' \<rparr>"

definition highlightSelected :: "string option \<Rightarrow> layer list option \<Rightarrow> layer list option" where
  "highlightSelected selectedPlotId plotLayer =
     (case (selectedPlotId, plotLayer) of
        (Some sel, Some layers) \<Rightarrow>
          if sel = [] then plotLayer
          else Some (map (\<lambda>l. if strict_eq (feature_id l) (JStr sel)
                                then l\<lparr> layer_style := selectedStyle (feature_status l) \<rparr>
                                else l) layers)
      | _ \<Rightarrow> plotLayer)"

subsection \<open>Geometry validation\<close>

text \<open>
  \<open>isValidCoordinate\<close>: an array of at least two entries whose first two are finite
  numbers inside the bounds of Tanzania.
\<close>

fun isValidCoordinate :: "jsval \<Rightarrow> bool" where
  "isValidCoordinate (JArr (JNum (Fin lng) # JNum (Fin lat) # rest)) =
     (\<not> (lng < 29 \<or> lng > 41 \<or> lat < - 12 \<or> lat > - 0.5))"
| "isValidCoordinate coord = False"

text \<open>The callback of \<open>every\<close> for a ring.\<close>

definition isValidRing :: "jsval \<Rightarrow> bool" where
  "isValidRing ring =
     (case ring of JArr coords \<Rightarrow> length coords \<ge> 4 \<and> list_all isValidCoordinate coords
      | _ \<Rightarrow> False)"

definition isValidGeometry :: "jsval \<Rightarrow> bool" where
  "isValidGeometry geom =
     (if \<not> truthy geom \<or> \<not> truthy (js_get geom ''type'')
         \<or> \<not> truthy (js_get geom ''coordinates'')
      then False
      else if strict_eq (js_get geom ''type'') (JStr ''Polygon'')
      then (case js_get geom ''coordinates'' of
              JArr rings \<Rightarrow> length rings > 0 \<and> list_all isValidRing rings
            | _ \<Rightarrow> False)
      else if strict_eq (js_get geom ''type'') (JStr ''MultiPolygon'')
      then (case js_get geom ''coordinates'' of
              JArr polygons \<Rightarrow>
                length polygons > 0 \<and>
                list_all (\<lambda>polygon. case polygon of
                                       JArr rings \<Rightarrow> length rings > 0 \<and> list_all isValidRing rings
                                     | _ \<Rightarrow> False) polygons
            | _ \<Rightarrow> False)
      else False)"

subsection \<open>Centroid\<close>

text \<open>
  \<open>getPolygonCentroid(coordinates: number[][][])\<close>. Coordinates are finite doubles,
  read as the real numbers they denote. Every arithmetic operation of the source rounds
  its exact result to a double; the rounding is the parameter \<open>rnd\<close>, so that
  \<open>getPolygonCentroid (\<lambda>x. x)\<close> is the function in exact arithmetic and
  \<open>getPolygonCentroid binary64\<close> the function in double arithmetic (overflow and
  underflow left aside: the values here stay far from both). A coordinate with fewer than
  two numbers destructures to \<open>undefined\<close>, which makes every sum NaN.

  The loop \<open>for (i = 0; i < ring.length - 1; i++)\<close> over the pairs \<open>ring[i]\<close>,
  \<open>ring[i + 1]\<close>, with the accumulators \<open>area\<close>, \<open>x\<close>, \<open>y\<close>:
\<close>

fun shoelace ::
  "(real \<Rightarrow> real) \<Rightarrow> real list list \<Rightarrow> real \<times> real \<times> real \<Rightarrow> real \<times> real \<times> real" where
  "shoelace rnd (c0 # c1 # rest) (area, x, y) =
     (let x0 = c0 ! 0; y0 = c0 ! 1; x1 = c1 ! 0; y1 = c1 ! 1;
          a = rnd (rnd (x0 * y1) - rnd (x1 * y0))
      in shoelace rnd (c1 # rest)
           (rnd (area + a), rnd (x + rnd (rnd (x0 + x1) * a)), rnd (y + rnd (rnd (y0 + y1) * a))))"
| "shoelace rnd ring acc = acc"

definition getPolygonCentroid :: "(real \<Rightarrow> real) \<Rightarrow> real list list list \<Rightarrow> jsnum \<times> jsnum" where
  "getPolygonCentroid rnd coordinates =
     (case coordinates of
        [] \<Rightarrow> (Fin 0, Fin 0)
      | ring # others \<Rightarrow>
          if length ring < 4 then (Fin 0, Fin 0)
          else if \<exists>c \<in> set ring. length c < 2 then (NaN, NaN)
          else (case shoelace rnd ring (0, 0, 0) of
                  (area, x, y) \<Rightarrow>
                    if \<bar>area\<bar> < rnd (1 / 10 ^ 10)
                    then (Fin (rnd (foldl (\<lambda>sum coord. rnd (sum + coord ! 0)) 0 ring
                                     / real (length ring))),
                          Fin (rnd (foldl (\<lambda>sum coord. rnd (sum + coord ! 1)) 0 ring
                                     / real (length ring))))
                    else (Fin (rnd (x / rnd (6 * rnd (area * 0.5)))),
                          Fin (rnd (y / rnd (6 * rnd (area * 0.5)))))))"

text \<open>
  Rounding to the nearest double, ties to even: a number other than 0 is scaled by a
  power of two into the range from \<open>2^52\<close> to \<open>2^53\<close>, rounded to an integer there,
  and scaled back.
\<close>

definition round_half_even :: "real \<Rightarrow> int" where
  "round_half_even m =
     (let r = \<lfloor>m\<rfloor>; f = m - of_int r
      in if f < 1 / 2 then r else if 1 / 2 < f then r + 1 else if even r then r else r + 1)"

fun normalise :: "nat \<Rightarrow> real \<Rightarrow> int \<Rightarrow> real \<times> int" where
  "normalise 0 m e = (m, e)"
| "normalise (Suc n) m e =
     (if 2 ^ 53 \<le> m then normalise n (m / 2) (e + 1)
      else if m < 2 ^ 52 then normalise n (m * 2) (e - 1)
      else (m, e))"

declare normalise.simps [simp del]

definition binary64 :: "real \<Rightarrow> real" where
  "binary64 x =
     (if x = 0 then 0
      else (case normalise 2200 \<bar>x\<bar> 0 of
              (m, e) \<Rightarrow> sgn x * of_int (round_half_even m) * 2 powi e))"

subsection \<open>Popup and click\<close>

text \<open>
  The action element of \<open>createPopupContent\<close>: the order button, for an available plot
  only, or a notice.
\<close>

datatype popup_action = OrderButton | StatusNotice string

definition createPopupContent_action :: "plot \<Rightarrow> popup_action" where
  "createPopupContent_action p =
     (if status p = ''available'' then OrderButton
      else StatusNotice (if status p = ''taken'' then ''Plot Already Taken'' else ''Order Pending''))"

text \<open>The component state the order flow reads and writes, with the service's state.\<close>

record app_state =
  plots :: "plot list"
  selectedPlot :: "plot option"
  orderError :: "string option"
  isModalOpen :: bool
  service :: service_state

text \<open>\<open>handlePlotClick\<close>: the new state and the plot passed to \<open>onPlotSelect\<close>, if any.\<close>

definition handlePlotClick :: "plot \<Rightarrow> app_state \<Rightarrow> app_state \<times> plot option" where
  "handlePlotClick p st =
     (if status p = ''available''
      then (st\<lparr> selectedPlot := Some p, isModalOpen := True, orderError := None \<rparr>, Some p)
      else (st, None))"

subsection \<open>Submitting an order\<close>

text \<open>
  What the handler does besides changing the state, in order. \<open>renderPlots\<close> draws the
  plots it is given and writes no state of the order flow; it is taken to return (it catches
  the errors of building the layer itself).
\<close>

datatype effect =
    SetPlots "plot list"
  | RenderPlots "plot list"
  | Sent request
  | ScheduleLoadPlots nat

definition optimisticPlots :: "plot \<Rightarrow> plot list \<Rightarrow> plot list" where
  "optimisticPlots sel ps =
     map (\<lambda>p. if strict_eq (id p) (id sel) then p\<lparr> status := ''pending'' \<rparr> else p) ps"

text \<open>
  \<open>handleOrderSubmit\<close>, run from its call to its end with nothing else in between. The
  \<open>catch\<close> block restores the plots the handler was created with and reports the
  message of the error.
\<close>

definition handleOrderSubmit ::
  "bool \<Rightarrow> env \<Rightarrow> order_data \<Rightarrow> app_state \<Rightarrow> app_state \<times> effect list" where
  "handleOrderSubmit use_mock e orderData st =
     (case selectedPlot st of
        None \<Rightarrow> (st\<lparr> orderError := Some ''No plot selected.'' \<rparr>, [])
      | Some sel \<Rightarrow>
          (case PlotService_createOrder use_mock e (id sel) orderData (service st) of
             (Inr created, svc', sent) \<Rightarrow>
               (st\<lparr> orderError := None, plots := optimisticPlots sel (plots st),
                    selectedPlot := None, isModalOpen := False, service := svc' \<rparr>,
                [SetPlots (optimisticPlots sel (plots st)),
                 RenderPlots (optimisticPlots sel (plots st))]
                @ map Sent sent @ [ScheduleLoadPlots 1000])
           | (Inl m, svc', sent) \<Rightarrow>
               (st\<lparr> orderError := Some (''Failed to submit order: '' @ m), plots := plots st,
                    service := svc' \<rparr>,
                [SetPlots (optimisticPlots sel (plots st)),
                 RenderPlots (optimisticPlots sel (plots st))]
                @ map Sent sent @ [SetPlots (plots st), RenderPlots (plots st)])))"

subsection \<open>The handler at its suspension points\<close>

text \<open>
  The program runs on one event loop: a handler runs without interruption until it waits
  for the network or a timer, and other handlers run while it waits. To speak of two calls
  that overlap, \<open>handleOrderSubmit\<close> is cut where it waits: for the delay of the mock
  backend, for the health probe, and for the answer to the order request. A continuation
  holds what the waiting call remembers: the plots it was created with, and what it still
  needs to go on.

  With mock data the plots on the screen can be the mock backend's own objects
  (\<open>getAllPlots\<close> returns the objects of \<open>mockPlots\<close> in a new array), and
  \<open>createOrder\<close> changes such an object in place; no other statement of the sources
  assigns to a field of a plot. A list of plots is here the list of their values. Which of
  its entries are objects of \<open>mockPlots\<close> is told where it matters, when a call goes on
  after the delay of the mock backend: for each entry, the index in \<open>mockPlots\<close> of the
  object that the entry is, or \<open>None\<close> for an object of its own, such as the copy that
  the optimistic update makes. An entry that is an object of \<open>mockPlots\<close> reads as the
  mock backend has it; \<open>mockPlots\<close> itself never gets longer or shorter. An entry
  with no mark, or with an index that is not one of \<open>mockPlots\<close>, is left as it is.
\<close>

fun reread :: "plot list \<Rightarrow> nat option list \<Rightarrow> plot list \<Rightarrow> plot list" where
  "reread objects (Some i # shared) (p # ps) =
     (if i < length objects then objects ! i else p) # reread objects shared ps"
| "reread objects (None # shared) (p # ps) = p # reread objects shared ps"
| "reread objects [] ps = ps"
| "reread objects shared [] = []"

datatype continuation =
    AwaitMockDelay "plot list" jsval order_data
  | AwaitProbe "plot list" jsval order_data int
  | AwaitExchange "plot list"

text \<open>
  A completion is the end of the mock backend's delay, with the three readings of the clock
  and with the entries that are objects of \<open>mockPlots\<close>, among the plots the call
  remembers and among the plots on the screen; or the answer to the probe; or the answer to
  the order request, with the message of the TypeError that reading \<open>order.id\<close> raises if
  the body is \<open>null\<close>.
\<close>

datatype completion =
    MockDelayElapsed string string string "nat option list" "nat option list"
  | ProbeDone probe_outcome
  | ExchangeDone fetch_outcome string

text \<open>The \<open>catch\<close> block, and the statements after a successful \<open>await\<close>.\<close>

definition submit_failed :: "plot list \<Rightarrow> string \<Rightarrow> app_state \<Rightarrow> app_state \<times> effect list" where
  "submit_failed snapshot m st =
     (st\<lparr> plots := snapshot, orderError := Some (''Failed to submit order: '' @ m) \<rparr>,
      [SetPlots snapshot, RenderPlots snapshot])"

definition submit_succeeded :: "app_state \<Rightarrow> app_state \<times> effect list" where
  "submit_succeeded st =
     (st\<lparr> selectedPlot := None, isModalOpen := False \<rparr>, [ScheduleLoadPlots 1000])"

text \<open>From the call to the first wait (or to the end, when the call does not wait).\<close>

definition handleOrderSubmit_start ::
  "bool \<Rightarrow> int \<Rightarrow> order_data \<Rightarrow> app_state \<Rightarrow> app_state \<times> effect list \<times> continuation option" where
  "handleOrderSubmit_start use_mock now orderData st =
     (case selectedPlot st of
        None \<Rightarrow> (st\<lparr> orderError := Some ''No plot selected.'' \<rparr>, [], None)
      | Some sel \<Rightarrow>
          (let snapshot = plots st;
               st1 = st\<lparr> orderError := None, plots := optimisticPlots sel snapshot \<rparr>;
               shown = [SetPlots (optimisticPlots sel snapshot),
                        RenderPlots (optimisticPlots sel snapshot)]
           in if use_mock then (st1, shown, Some (AwaitMockDelay snapshot (id sel) orderData))
              else (case createOrder_validation orderData of
                      Some m \<Rightarrow>
                        (case submit_failed snapshot m st1 of
                           (st2, reverted) \<Rightarrow> (st2, shown @ reverted, None))
                    | None \<Rightarrow>
                        if now - lastHealthCheck (health (service st)) < 30000
                           \<and> isHealthy (health (service st))
                        then (st1, shown @ [Sent (PostOrder (id sel) orderData)],
                              Some (AwaitExchange snapshot))
                        else (st1, shown @ [Sent HealthProbe],
                              Some (AwaitProbe snapshot (id sel) orderData now)))))"

text \<open>From the end of a wait to the next wait or to the end.\<close>

definition set_health :: "health_state \<Rightarrow> app_state \<Rightarrow> app_state" where
  "set_health h st = st\<lparr> service := (service st)\<lparr> health := h \<rparr> \<rparr>"

definition set_mock :: "mock_state \<Rightarrow> app_state \<Rightarrow> app_state" where
  "set_mock ms st = st\<lparr> service := (service st)\<lparr> mock := ms \<rparr> \<rparr>"

fun handleOrderSubmit_resume ::
  "continuation \<Rightarrow> completion \<Rightarrow> app_state \<Rightarrow> app_state \<times> effect list \<times> continuation option" where
  "handleOrderSubmit_resume (AwaitMockDelay snapshot plotId orderData)
       (MockDelayElapsed t1 t2 t3 remembered shown) st =
     (case MockDataService_createOrder plotId orderData t1 t2 t3 (mock (service st)) of
        (Inl m, ms) \<Rightarrow>
          (case submit_failed (reread (mockPlots ms) remembered snapshot) m (set_mock ms st) of
             (st', eff) \<Rightarrow> (st', eff, None))
      | (Inr created, ms) \<Rightarrow>
          (case submit_succeeded
                  (set_mock ms (st\<lparr> plots := reread (mockPlots ms) shown (plots st) \<rparr>)) of
             (st', eff) \<Rightarrow> (st', eff, None)))"
| "handleOrderSubmit_resume (AwaitProbe snapshot plotId orderData now) (ProbeDone outcome) st =
     (let ok = (case outcome of ProbeResponse b \<Rightarrow> b | ProbeThrows \<Rightarrow> False);
          st1 = set_health \<lparr> lastHealthCheck = now, isHealthy = ok \<rparr> st
      in if ok
         then (st1, [Sent (PostOrder plotId orderData)], Some (AwaitExchange snapshot))
         else (case submit_failed snapshot
                      ''API server is not responding. Please check your connection and try again.''
                      st1 of
                 (st', eff) \<Rightarrow> (st', eff, None)))"
| "handleOrderSubmit_resume (AwaitExchange snapshot) (ExchangeDone outcome null_read) st =
     (case outcome of
        ResponseJson v \<Rightarrow>
          (case get_prop v ''id'' of
             None \<Rightarrow>
               (case submit_failed snapshot null_read st of (st', eff) \<Rightarrow> (st', eff, None))
           | Some logged \<Rightarrow> (case submit_succeeded st of (st', eff) \<Rightarrow> (st', eff, None)))
      | RequestFailed m \<Rightarrow> (case submit_failed snapshot m st of (st', eff) \<Rightarrow> (st', eff, None)))"
| "handleOrderSubmit_resume k c st = (st, [], Some k)"

text \<open>
  One call run to its end on its own, with the completions that the environment \<open>e\<close>
  gives. Nothing else runs in between, and the call itself changes no object that its lists
  hold (the one object that a successful \<open>createOrder\<close> changes has the identifier of the
  selected plot, and the optimistic update has replaced every plot with that identifier by a
  copy): the plots read as they were, so no entry is marked as an object of \<open>mockPlots\<close>.
\<close>

definition completion_for :: "env \<Rightarrow> continuation \<Rightarrow> completion" where
  "completion_for e k =
     (case k of
        AwaitMockDelay snapshot plotId orderData \<Rightarrow>
          MockDelayElapsed (env_t1 e) (env_t2 e) (env_t3 e) [] []
      | AwaitProbe snapshot plotId orderData now \<Rightarrow> ProbeDone (env_probe e)
      | AwaitExchange snapshot \<Rightarrow> ExchangeDone (env_exchange e) (env_null_read e))"


fun run_call ::
  "nat \<Rightarrow> env \<Rightarrow> app_state \<times> effect list \<times> continuation option \<Rightarrow> app_state \<times> effect list" where
  "run_call n e (st, eff, None) = (st, eff)"
| "run_call 0 e (st, eff, Some k) = (st, eff)"
| "run_call (Suc n) e (st, eff, Some k) =
     (case handleOrderSubmit_resume k (completion_for e k) st of
        (st', eff', k') \<Rightarrow> run_call n e (st', eff @ eff', k'))"

text \<open>The order requests among the effects.\<close>

fun is_order_request :: "effect \<Rightarrow> bool" where
  "is_order_request (Sent (PostOrder plotId orderData)) = True"
| "is_order_request e = False"

text \<open>An application state for the examples: one available plot, selected in the order form.\<close>

definition sample_state :: app_state where
  "sample_state =
     \<lparr> plots = [mock_plot_001, mock_plot_002], selectedPlot = Some mock_plot_001,
       orderError = None, isModalOpen = True,
       service = \<lparr> health = initial_health, mock = initial_mock \<rparr> \<rparr>"

section \<open>Notions of the specification\<close>

text \<open>
  The rings of a geometry, as GeoJSON lays them out (a Polygon's coordinates are its
  rings, a MultiPolygon's are polygons), the entries of a ring, a coordinate that is two
  finite numbers (further entries, such as an elevation, are allowed), and a coordinate
  outside the operating region: longitude 29 to 41, latitude -12 to -0.5.
\<close>

definition geometry_rings :: "jsval \<Rightarrow> jsval list" where
  "geometry_rings geom =
     (if js_get geom ''type'' = JStr ''Polygon''
      then (case js_get geom ''coordinates'' of JArr rings \<Rightarrow> rings | _ \<Rightarrow> [])
      else if js_get geom ''type'' = JStr ''MultiPolygon''
      then (case js_get geom ''coordinates'' of
              JArr polygons \<Rightarrow>
                concat (map (\<lambda>polygon. case polygon of JArr rings \<Rightarrow> rings | _ \<Rightarrow> []) polygons)
            | _ \<Rightarrow> [])
      else [])"

definition ring_coordinates :: "jsval \<Rightarrow> jsval list" where
  "ring_coordinates ring = (case ring of JArr coords \<Rightarrow> coords | _ \<Rightarrow> [])"

fun finite_pair :: "jsval \<Rightarrow> bool" where
  "finite_pair (JArr (JNum (Fin lng) # JNum (Fin lat) # rest)) = True"
| "finite_pair coord = False"

fun outside_bounds :: "jsval \<Rightarrow> bool" where
  "outside_bounds (JArr (JNum (Fin lng) # JNum (Fin lat) # rest)) =
     (lng < 29 \<or> 41 < lng \<or> lat < - 12 \<or> - 0.5 < lat)"
| "outside_bounds coord = False"

text \<open>
  Invalid applicant data, in the specification's words: an empty first name, last name,
  phone or email, or an email that does not match the address pattern. Empty is absent,
  empty or white space only.
\<close>

definition applicant_invalid :: "order_data \<Rightarrow> bool" where
  "applicant_invalid od =
     (blank_field (first_name od) \<or> blank_field (last_name od)
      \<or> blank_field (customer_phone od) \<or> blank_field (customer_email od)
      \<or> (case customer_email od of None \<Rightarrow> True | Some s \<Rightarrow> \<not> emailRegex_test s))"

text \<open>
  Examples: an environment in which the health state is fresh and the order request
  fails, and an applicant whose first name is white space only.
\<close>

definition sample_env :: env where
  "sample_env =
     \<lparr> env_now = 1000, env_probe = ProbeResponse True,
       env_exchange = RequestFailed ''Internal server error. Please try again later.'',
       env_t1 = ''2024-02-01T08:00:00.000Z'', env_t2 = ''2024-02-01T08:00:00.000Z'',
       env_t3 = ''2024-02-01T08:00:00.000Z'',
       env_null_read = ''Cannot read properties of null'' \<rparr>"

definition blank_applicant :: order_data where
  "blank_applicant = sample_applicant\<lparr> first_name := Some ''  '' \<rparr>"

text \<open>
  More examples: the state in which the selected plot is already pending (the state after
  a first call has started), an environment in which the remote source accepts the order,
  and a plot whose raw status was "archived".
\<close>

definition pending_state :: app_state where
  "pending_state = sample_state\<lparr> plots := [mock_plot_001\<lparr> status := ''pending'' \<rparr>, mock_plot_002] \<rparr>"

text \<open>
  With mock data: the mock backend after an order for the first plot has been created, and
  the state of the screen when two calls for the first plot have started and one of them has
  ended with that order.
\<close>

definition ordered_mock :: mock_state where
  "ordered_mock =
     snd (MockDataService_createOrder (JStr ''plot-001'') sample_applicant
            ''2024-02-01T08:00:00.000Z'' ''2024-02-01T08:00:00.000Z''
            ''2024-02-01T08:00:00.000Z'' initial_mock)"

definition ordered_state :: app_state where
  "ordered_state =
     set_mock ordered_mock (pending_state\<lparr> selectedPlot := None, isModalOpen := False \<rparr>)"

definition accepting_env :: env where
  "accepting_env = sample_env\<lparr> env_exchange := ResponseJson (JObj [(''id'', JStr ''order-1'')]) \<rparr>"

definition archived_plot :: plot where
  "archived_plot = mock_plot_001\<lparr> status := normalizeStatus (JStr ''archived'') \<rparr>"

text \<open>
  A non-negative number, and a raw feature whose area is negative and whose district, ward,
  village and time stamps are absent.
\<close>

definition num_nonneg :: "jsnum \<Rightarrow> bool" where
  "num_nonneg n = (case n of Fin r \<Rightarrow> 0 \<le> r | PosInf \<Rightarrow> True | _ \<Rightarrow> False)"

definition raw_feature :: jsval where
  "raw_feature =
     JObj [(''type'', JStr ''Feature''),
           (''properties'',
              JObj [(''id'', JStr ''plot-009''), (''plot_code'', JStr ''DSM/ILALA/009''),
                    (''status'', JStr ''available''), (''area_hectares'', JNum (Fin (- 5)))]),
           (''geometry'', geometry mock_plot_001)]"

text \<open>
  For the centroid: the two numbers of a coordinate, the edges of a ring (the pairs the
  loop visits), on which side of the line from \<open>p\<close> to \<open>q\<close> the point \<open>r\<close> lies, a
  ring that the loop can read, a closed ring, and a convex ring: every vertex lies on the
  same side of every edge, or on its line. The signed area is in exact arithmetic, as is
  the mean.
\<close>

definition px :: "real list \<Rightarrow> real" where "px c = c ! 0"
definition py :: "real list \<Rightarrow> real" where "py c = c ! 1"

definition edges :: "real list list \<Rightarrow> (real list \<times> real list) list" where
  "edges ring = zip ring (tl ring)"

definition cross3 :: "real list \<Rightarrow> real list \<Rightarrow> real list \<Rightarrow> real" where
  "cross3 p q r = (px q - px p) * (py r - py p) - (px r - px p) * (py q - py p)"

definition ring_wellformed :: "real list list \<Rightarrow> bool" where
  "ring_wellformed ring = (4 \<le> length ring \<and> (\<forall>c \<in> set ring. 2 \<le> length c))"

definition ring_closed :: "real list list \<Rightarrow> bool" where
  "ring_closed ring = (ring \<noteq> [] \<and> px (hd ring) = px (last ring) \<and> py (hd ring) = py (last ring))"

definition ring_convex :: "real list list \<Rightarrow> bool" where
  "ring_convex ring =
     ((\<forall>(p, q) \<in> set (edges ring). \<forall>r \<in> set ring. 0 \<le> cross3 p q r)
      \<or> (\<forall>(p, q) \<in> set (edges ring). \<forall>r \<in> set ring. cross3 p q r \<le> 0))"

definition signed_area :: "real list list \<Rightarrow> real" where
  "signed_area ring = fst (shoelace (\<lambda>x. x) ring (0, 0, 0)) / 2"

definition mean :: "real list \<Rightarrow> real" where
  "mean xs = sum_list xs / real (length xs)"

text \<open>Sums over the edges of a ring, and the term of the shoelace sum.\<close>

definition edge_sum :: "(real list \<Rightarrow> real list \<Rightarrow> real) \<Rightarrow> real list list \<Rightarrow> real" where
  "edge_sum f ring = sum_list (map (\<lambda>(p, q). f p q) (edges ring))"

definition area_term :: "real list \<Rightarrow> real list \<Rightarrow> real" where
  "area_term p q = px p * py q - px q * py p"

text \<open>
  Two rings: the ring of the first mock plot, and a square of side 0.0001 degrees (about
  11 m), whose decimal coordinates are read as doubles.
\<close>

definition plot_001_ring :: "real list list" where
  "plot_001_ring =
     [[39.2083, - 6.7833], [39.2093, - 6.7833], [39.2093, - 6.7843], [39.2083, - 6.7843],
      [39.2083, - 6.7833]]"

definition small_plot_ring :: "real list list" where
  "small_plot_ring =
     map (map binary64)
       [[39.5682, - 8.961], [39.5683, - 8.961], [39.5683, - 8.9609], [39.5682, - 8.9609],
        [39.5682, - 8.961]]"


section \<open>Basic facts\<close>

lemma strict_eq_JStr [simp]: "strict_eq v (JStr s) = (v = JStr s)"
  by (cases "(v, JStr s)" rule: strict_eq.cases) auto

section \<open>Properties of the mock backend\<close>

lemma find_update_first:
  "find P xs = Some x \<Longrightarrow> P (f x) \<Longrightarrow> find P (update_first P f xs) = Some (f x)"
  by (induction xs) (auto split: if_splits)

lemma length_update_first [simp]: "length (update_first P f xs) = length xs"
  by (induction xs) auto

lemma filter_update_first:
  "(\<And>x. P x \<Longrightarrow> P (f x)) \<Longrightarrow>
   filter (\<lambda>x. \<not> P x) (update_first P f xs) = filter (\<lambda>x. \<not> P x) xs"
  by (induction xs) auto

text \<open>
  Claim C10. \<open>MockDataService.createOrder\<close> commits atomically. When no plot has the
  identifier it throws "Plot not found", and when the plot's status is not "available" it
  throws; in both cases the plot set, the order list and the counter are unchanged. When
  it succeeds, exactly one order is appended, with status "pending" and the plot's
  identifier; the plot found by the identifier now has status "pending" and the plots with
  another identifier are untouched; and every later \<open>createOrder\<close> for the same identifier
  throws and leaves the state (so the order list) as it is.
\<close>

theorem mock_createOrder_atomic:
  "(case find (\<lambda>p. strict_eq (id p) plotId) (mockPlots s) of
      None \<Rightarrow> MockDataService_createOrder plotId od t1 t2 t3 s = (Inl ''Plot not found'', s)
    | Some p \<Rightarrow>
        if status p \<noteq> ''available''
        then \<exists>msg. MockDataService_createOrder plotId od t1 t2 t3 s = (Inl msg, s)
        else \<exists>ord s'. MockDataService_createOrder plotId od t1 t2 t3 s = (Inr ord, s')
           \<and> mockOrders s' = mockOrders s @ [ord]
           \<and> order_status ord = ''pending''
           \<and> order_plot_id ord = plotId
           \<and> length (mockPlots s') = length (mockPlots s)
           \<and> filter (\<lambda>p. \<not> strict_eq (id p) plotId) (mockPlots s')
               = filter (\<lambda>p. \<not> strict_eq (id p) plotId) (mockPlots s)
           \<and> map_option status (find (\<lambda>p. strict_eq (id p) plotId) (mockPlots s'))
               = Some ''pending''
           \<and> (\<forall>od' u1 u2 u3. \<exists>msg.
                 MockDataService_createOrder plotId od' u1 u2 u3 s' = (Inl msg, s')))"
proof (cases "find (\<lambda>p. strict_eq (id p) plotId) (mockPlots s)")
  case None
  then show ?thesis by (simp add: MockDataService_createOrder_def)
next
  case (Some p)
  show ?thesis
  proof (cases "status p = ''available''")
    case False
    with Some show ?thesis by (simp add: MockDataService_createOrder_def)
  next
    case True
    let ?P = "\<lambda>p. strict_eq (id p) plotId"
    let ?f = "\<lambda>p::plot. p\<lparr> status := ''pending'', updated_at := JStr t3 \<rparr>"
    from Some have Pp: "?P p" by (auto simp: find_Some_iff)
    have fnd: "find ?P (update_first ?P ?f (mockPlots s)) = Some (?f p)"
      by (rule find_update_first[OF Some]) (use Pp in simp)
    have flt: "filter (\<lambda>x. \<not> ?P x) (update_first ?P ?f (mockPlots s))
                 = filter (\<lambda>x. \<not> ?P x) (mockPlots s)"
      by (rule filter_update_first) simp
    show ?thesis using Some True fnd flt
      by (simp add: MockDataService_createOrder_def Let_def)
  qed
qed

theorem mock_createOrder_atomic_witness:
  "\<exists>ord s'. MockDataService_createOrder (JStr ''plot-001'') sample_applicant ''t1'' ''t2'' ''t3''
               initial_mock = (Inr ord, s')
     \<and> mockOrders s' = [ord] \<and> order_status ord = ''pending''
     \<and> order_plot_id ord = JStr ''plot-001''
     \<and> map_option status (find (\<lambda>p. strict_eq (id p) (JStr ''plot-001'')) (mockPlots s'))
         = Some ''pending''
     \<and> (\<forall>od' u1 u2 u3. \<exists>msg.
           MockDataService_createOrder (JStr ''plot-001'') od' u1 u2 u3 s' = (Inl msg, s'))"
  using mock_createOrder_atomic [where plotId = "JStr ''plot-001''" and s = initial_mock
      and od = sample_applicant and ?t1.0 = "''t1''" and ?t2.0 = "''t2''" and ?t3.0 = "''t3''"]
  by (simp add: initial_mock_def mock_plot_001_def mock_plot_002_def) blast

section \<open>Health gate\<close>




section \<open>Selection styling\<close>

text \<open>
  Claim C9, as the specification states it: selection replaces the colour that the status
  gives the plot. The colours by status are the fill colours; the style of a selected
  available plot still has the fill colour of an available plot, not the highlight colour.
\<close>

theorem selection_keeps_fill_counterexample:
  "fillColor (selectedStyle ''available'') = fillColor (getPlotStyle ''available'' False)
   \<and> fillColor (selectedStyle ''available'') = ''#10B981''
   \<and> fillColor (selectedStyle ''available'') \<noteq> ''#3B82F6''"
  by (simp add: selectedStyle_def getPlotStyle_def)

text \<open>
  Claim C9, amended. For every status, known or not, the style of the selected plot has the
  highlight colour \<open>#3B82F6\<close> as its stroke colour, in place of the white stroke that
  every status gives, and stroke weight 4; the fill colour, the fill opacity and the dash
  pattern stay those of the status. The effect gives this style to every layer whose
  feature has the selected identifier, and leaves the other layers as they are.
\<close>

theorem selection_overrides_stroke:
  "color (selectedStyle st) = ''#3B82F6''
   \<and> weight (selectedStyle st) = 4
   \<and> color (getPlotStyle st hov) = ''#ffffff''
   \<and> fillColor (selectedStyle st) = fillColor (getPlotStyle st False)
   \<and> fillOpacity (selectedStyle st) = fillOpacity (getPlotStyle st False)
   \<and> dashArray (selectedStyle st) = dashArray (getPlotStyle st False)
   \<and> (sel \<noteq> [] \<longrightarrow>
        (\<exists>layers'. highlightSelected (Some sel) (Some layers) = Some layers'
           \<and> length layers' = length layers
           \<and> (\<forall>i < length layers.
                 layers' ! i =
                   (if strict_eq (feature_id (layers ! i)) (JStr sel)
                    then (layers ! i)\<lparr> layer_style := selectedStyle (feature_status (layers ! i)) \<rparr>
                    else layers ! i))))"
  by (simp add: selectedStyle_def getPlotStyle_def highlightSelected_def Let_def)

theorem selection_overrides_stroke_witness:
  "highlightSelected (Some ''plot-002'')
     (Some [\<lparr> feature_id = JStr ''plot-001'', feature_status = ''available'',
               layer_style = getPlotStyle ''available'' False \<rparr>,
            \<lparr> feature_id = JStr ''plot-002'', feature_status = ''taken'',
               layer_style = getPlotStyle ''taken'' False \<rparr>])
   = Some [\<lparr> feature_id = JStr ''plot-001'', feature_status = ''available'',
              layer_style = getPlotStyle ''available'' False \<rparr>,
           \<lparr> feature_id = JStr ''plot-002'', feature_status = ''taken'',
              layer_style = \<lparr> weight = 4, color = ''#3B82F6'', fillOpacity = 0.6, opacity = 1,
                              fillColor = ''#EF4444'', dashArray = None \<rparr> \<rparr>]"
  using selection_overrides_stroke [where sel = "''plot-002''" and st = "''taken''"
      and layers = "[\<lparr> feature_id = JStr ''plot-001'', feature_status = ''available'',
               layer_style = getPlotStyle ''available'' False \<rparr>,
            \<lparr> feature_id = JStr ''plot-002'', feature_status = ''taken'',
               layer_style = getPlotStyle ''taken'' False \<rparr>]"]
  by (simp add: highlightSelected_def selectedStyle_def getPlotStyle_def)

section \<open>Geometry validation\<close>

lemma isValidCoordinate_iff:
  "isValidCoordinate c \<longleftrightarrow> finite_pair c \<and> \<not> outside_bounds c"
  by (induction c rule: isValidCoordinate.induct) auto

lemma isValidRing_iff:
  "isValidRing ring \<longleftrightarrow>
     (\<exists>coords. ring = JArr coords \<and> 4 \<le> length coords
        \<and> (\<forall>c \<in> set coords. finite_pair c \<and> \<not> outside_bounds c))"
  by (auto simp: isValidRing_def list_all_iff isValidCoordinate_iff split: jsval.splits)

lemma isValidRing_coordinates:
  "isValidRing ring \<Longrightarrow> 4 \<le> length (ring_coordinates ring)
     \<and> (\<forall>c \<in> set (ring_coordinates ring). finite_pair c \<and> \<not> outside_bounds c)"
  by (auto simp: isValidRing_iff ring_coordinates_def)

lemma isValidGeometry_type:
  "isValidGeometry geom \<Longrightarrow> js_get geom ''type'' \<in> {JStr ''Polygon'', JStr ''MultiPolygon''}"
  by (simp add: isValidGeometry_def split: if_splits)

lemma isValidGeometry_coordinates:
  "isValidGeometry geom \<Longrightarrow> \<exists>xs. js_get geom ''coordinates'' = JArr xs \<and> xs \<noteq> []"
  by (cases "js_get geom ''coordinates''") (auto simp: isValidGeometry_def split: if_splits)

lemma isValidGeometry_all_rings:
  assumes "isValidGeometry geom" and "ring \<in> set (geometry_rings geom)"
  shows "isValidRing ring"
proof -
  from assms(1) obtain xs where xs: "js_get geom ''coordinates'' = JArr xs"
    using isValidGeometry_coordinates by blast
  from isValidGeometry_type[OF assms(1)]
  consider "js_get geom ''type'' = JStr ''Polygon''" | "js_get geom ''type'' = JStr ''MultiPolygon''"
    by auto
  then show ?thesis
  proof cases
    case 1
    with assms xs show ?thesis
      by (simp add: isValidGeometry_def geometry_rings_def list_all_iff split: if_splits)
  next
    case 2
    with assms(2) xs obtain polygon where p: "polygon \<in> set xs"
      and r: "ring \<in> set (case polygon of JArr rings \<Rightarrow> rings | _ \<Rightarrow> [])"
      by (auto simp: geometry_rings_def)
    from assms(1) 2 xs
    have "\<forall>x \<in> set xs. case x of JArr rings \<Rightarrow> rings \<noteq> [] \<and> (\<forall>r \<in> set rings. isValidRing r)
                              | _ \<Rightarrow> False"
      by (simp add: isValidGeometry_def list_all_iff split: if_splits)
    with p have "case polygon of JArr rings \<Rightarrow> rings \<noteq> [] \<and> (\<forall>r \<in> set rings. isValidRing r)
                              | _ \<Rightarrow> False"
      by blast
    with r show ?thesis by (cases polygon) auto
  qed
qed

text \<open>
  Claim C5. \<open>isValidGeometry\<close> returns false for every geometry whose type is not
  Polygon or MultiPolygon, or whose coordinates are absent or empty, or that has a ring
  with fewer than 4 entries, or a coordinate that is not two finite numbers, or a
  coordinate outside the bounds (longitude 29 to 41, latitude -12 to -0.5). The ring of 3
  points of the specification's scenario fails validation.
\<close>

theorem geometry_validation_sound:
  "(js_get geom ''type'' \<notin> {JStr ''Polygon'', JStr ''MultiPolygon''}
      \<or> js_get geom ''coordinates'' \<in> {JUndefined, JNull, JArr []}
      \<or> (\<exists>ring \<in> set (geometry_rings geom). length (ring_coordinates ring) < 4)
      \<or> (\<exists>ring \<in> set (geometry_rings geom). \<exists>c \<in> set (ring_coordinates ring). \<not> finite_pair c)
      \<or> (\<exists>ring \<in> set (geometry_rings geom). \<exists>c \<in> set (ring_coordinates ring). outside_bounds c)
    \<longrightarrow> \<not> isValidGeometry geom)
   \<and> \<not> isValidGeometry (polygon_geometry [(39.20, - 6.78), (39.21, - 6.78), (39.21, - 6.79)])"
proof (intro conjI impI notI)
  assume bad: "js_get geom ''type'' \<notin> {JStr ''Polygon'', JStr ''MultiPolygon''}
      \<or> js_get geom ''coordinates'' \<in> {JUndefined, JNull, JArr []}
      \<or> (\<exists>ring \<in> set (geometry_rings geom). length (ring_coordinates ring) < 4)
      \<or> (\<exists>ring \<in> set (geometry_rings geom). \<exists>c \<in> set (ring_coordinates ring). \<not> finite_pair c)
      \<or> (\<exists>ring \<in> set (geometry_rings geom). \<exists>c \<in> set (ring_coordinates ring). outside_bounds c)"
    and ok: "isValidGeometry geom"
  note r = isValidGeometry_type[OF ok] isValidGeometry_coordinates[OF ok]
  have "\<forall>ring \<in> set (geometry_rings geom). 4 \<le> length (ring_coordinates ring)
     \<and> (\<forall>c \<in> set (ring_coordinates ring). finite_pair c \<and> \<not> outside_bounds c)"
    using isValidRing_coordinates isValidGeometry_all_rings[OF ok] by blast
  with bad r(1,2) show False by fastforce
next
  assume "isValidGeometry (polygon_geometry [(39.20, - 6.78), (39.21, - 6.78), (39.21, - 6.79)])"
  then show False
    by (simp add: isValidGeometry_def polygon_geometry_def isValidRing_def)
qed

theorem geometry_validation_sound_witness:
  "\<not> isValidGeometry
       (polygon_geometry [(39.20, - 6.78), (39.21, - 6.78), (39.21, - 6.79), (42, - 6.78)])
   \<and> isValidGeometry (geometry mock_plot_001)"
proof -
  let ?g = "polygon_geometry [(39.20, - 6.78), (39.21, - 6.78), (39.21, - 6.79), (42, - 6.78)]"
  have "JArr [JNum (Fin 42), JNum (Fin (- 6.78))] \<in> set (ring_coordinates (hd (geometry_rings ?g)))"
    by (simp add: geometry_rings_def polygon_geometry_def ring_coordinates_def)
  moreover have "hd (geometry_rings ?g) \<in> set (geometry_rings ?g)"
    by (simp add: geometry_rings_def polygon_geometry_def)
  moreover have "outside_bounds (JArr [JNum (Fin 42), JNum (Fin (- 6.78))])" by simp
  ultimately have "\<exists>ring \<in> set (geometry_rings ?g). \<exists>c \<in> set (ring_coordinates ring). outside_bounds c"
    by blast
  then have "\<not> isValidGeometry ?g"
    using geometry_validation_sound [of ?g] by blast
  moreover have "isValidGeometry (geometry mock_plot_001)"
    by (simp add: mock_plot_001_def isValidGeometry_def polygon_geometry_def isValidRing_def)
  ultimately show ?thesis by simp
qed


section \<open>Submitting an order\<close>

lemma applicant_invalid_iff: "applicant_invalid od \<longleftrightarrow> createOrder_validation od \<noteq> None"
  by (auto simp: applicant_invalid_def createOrder_validation_def blank_field_def
           split: option.splits)

lemma createOrder_invalid:
  "createOrder_validation od = Some m \<Longrightarrow>
   PlotService_createOrder False e plotId od svc = (Inl m, svc, [])"
  by (simp add: PlotService_createOrder_def)

lemma handleOrderSubmit_failure:
  assumes "selectedPlot st = Some sel"
      and "PlotService_createOrder use_mock e (id sel) od (service st) = (Inl m, svc', sent)"
  shows "handleOrderSubmit use_mock e od st =
           (st\<lparr> orderError := Some (''Failed to submit order: '' @ m), service := svc' \<rparr>,
            [SetPlots (optimisticPlots sel (plots st)), RenderPlots (optimisticPlots sel (plots st))]
            @ map Sent sent @ [SetPlots (plots st), RenderPlots (plots st)])"
  using assms by (simp add: handleOrderSubmit_def)

lemma sample_applicant_valid: "createOrder_validation sample_applicant = None"
  by code_simp

lemma blank_applicant_invalid:
  "createOrder_validation blank_applicant = Some ''First name is required''"
  by code_simp

lemma sample_selected: "selectedPlot sample_state = Some mock_plot_001"
  by (simp add: sample_state_def)

lemma sample_plots: "plots sample_state = [mock_plot_001, mock_plot_002]"
  by (simp add: sample_state_def)

lemma sample_optimistic:
  "optimisticPlots mock_plot_001 [mock_plot_001, mock_plot_002]
     = [mock_plot_001\<lparr> status := ''pending'' \<rparr>, mock_plot_002]"
  by (simp add: optimisticPlots_def mock_plot_001_def mock_plot_002_def)





lemma ordered_mock_plots:
  "mockPlots ordered_mock
     = [mock_plot_001\<lparr> status := ''pending'', updated_at := JStr ''2024-02-01T08:00:00.000Z'' \<rparr>,
        mock_plot_002]"
  by (simp add: ordered_mock_def MockDataService_createOrder_def initial_mock_def
        mock_plot_001_def mock_plot_002_def Let_def)

lemma ordered_mock_rejects:
  "MockDataService_createOrder (JStr ''plot-001'') od t1 t2 t3 ordered_mock
     = (Inl ''Plot is not available for ordering. Current status: pending'', ordered_mock)"
  by (simp add: MockDataService_createOrder_def ordered_mock_plots mock_plot_001_def)



text \<open>
  Claim C3, as the specification states it: invalid applicant data fail before any
  optimistic change of the plots. The handler changes the plots first and calls
  \<open>createOrder\<close>, which validates, afterwards: with a first name of white space the
  "pending" state is set and rendered, and then reverted.
\<close>

theorem validation_after_optimistic_update_counterexample:
  "applicant_invalid blank_applicant
   \<and> snd (handleOrderSubmit False sample_env blank_applicant sample_state)
       = [SetPlots [mock_plot_001\<lparr> status := ''pending'' \<rparr>, mock_plot_002],
          RenderPlots [mock_plot_001\<lparr> status := ''pending'' \<rparr>, mock_plot_002],
          SetPlots [mock_plot_001, mock_plot_002], RenderPlots [mock_plot_001, mock_plot_002]]"
proof -
  note sel = sample_selected
  note opt = sample_optimistic
  note pl = sample_plots
  have "applicant_invalid blank_applicant"
    by (simp add: applicant_invalid_iff blank_applicant_invalid)
  moreover have "snd (handleOrderSubmit False sample_env blank_applicant sample_state)
       = [SetPlots [mock_plot_001\<lparr> status := ''pending'' \<rparr>, mock_plot_002],
          RenderPlots [mock_plot_001\<lparr> status := ''pending'' \<rparr>, mock_plot_002],
          SetPlots [mock_plot_001, mock_plot_002], RenderPlots [mock_plot_001, mock_plot_002]]"
    using handleOrderSubmit_failure [OF sel createOrder_invalid [OF blank_applicant_invalid]]
    by (simp add: opt pl)
  ultimately show ?thesis by simp
qed

text \<open>
  Claim C3, amended. With a configured backend, a call with invalid applicant data fails
  in \<open>createOrder\<close> before the health probe and before the order request: nothing is
  sent and the service state is unchanged. The plots after the call are the plots before
  it, and the validation message is reported; in between, the optimistic state is set and
  rendered once.
\<close>

theorem invalid_applicant_no_network:
  assumes "applicant_invalid od" and "selectedPlot st = Some sel"
  shows "\<exists>m. createOrder_validation od = Some m
       \<and> handleOrderSubmit False e od st =
           (st\<lparr> orderError := Some (''Failed to submit order: '' @ m) \<rparr>,
            [SetPlots (optimisticPlots sel (plots st)), RenderPlots (optimisticPlots sel (plots st)),
             SetPlots (plots st), RenderPlots (plots st)])
       \<and> filter (\<lambda>x. case x of Sent r \<Rightarrow> True | _ \<Rightarrow> False)
            (snd (handleOrderSubmit False e od st)) = []
       \<and> plots (fst (handleOrderSubmit False e od st)) = plots st
       \<and> service (fst (handleOrderSubmit False e od st)) = service st"
proof -
  from assms(1) obtain m where m: "createOrder_validation od = Some m"
    by (auto simp: applicant_invalid_iff)
  have "handleOrderSubmit False e od st =
           (st\<lparr> orderError := Some (''Failed to submit order: '' @ m), service := service st \<rparr>,
            [SetPlots (optimisticPlots sel (plots st)), RenderPlots (optimisticPlots sel (plots st))]
            @ map Sent [] @ [SetPlots (plots st), RenderPlots (plots st)])"
    by (rule handleOrderSubmit_failure [OF assms(2) createOrder_invalid [OF m]])
  with m show ?thesis by simp
qed

theorem invalid_applicant_no_network_witness:
  "handleOrderSubmit False sample_env blank_applicant sample_state =
     (sample_state\<lparr> orderError := Some ''Failed to submit order: First name is required'' \<rparr>,
      [SetPlots [mock_plot_001\<lparr> status := ''pending'' \<rparr>, mock_plot_002],
       RenderPlots [mock_plot_001\<lparr> status := ''pending'' \<rparr>, mock_plot_002],
       SetPlots [mock_plot_001, mock_plot_002], RenderPlots [mock_plot_001, mock_plot_002]])"
proof -
  note sel = sample_selected
  note opt = sample_optimistic
  note pl = sample_plots
  have inv: "applicant_invalid blank_applicant"
    by (simp add: applicant_invalid_iff blank_applicant_invalid)
  show ?thesis
    using invalid_applicant_no_network [OF inv sel, of sample_env]
    by (auto simp: opt pl blank_applicant_invalid)
qed


section \<open>Overlapping calls\<close>

text \<open>
  The handler cut at its waits is the handler: running one call through its waits with the
  answers of the environment gives the state and the effects of \<open>handleOrderSubmit\<close>.
\<close>

lemma handleOrderSubmit_as_steps:
  "handleOrderSubmit use_mock e od st
     = run_call 2 e (handleOrderSubmit_start use_mock (env_now e) od st)"
proof (cases "selectedPlot st")
  case None
  then show ?thesis by (simp add: handleOrderSubmit_def handleOrderSubmit_start_def)
next
  case (Some sel)
  then show ?thesis
    by (auto simp: handleOrderSubmit_def handleOrderSubmit_start_def Let_def
          PlotService_createOrder_def fetchWithErrorHandling_def checkApiHealth_def
          completion_for_def submit_failed_def submit_succeeded_def set_health_def
          set_mock_def numeral_2_eq_2
        split: prod.splits sum.splits option.splits probe_outcome.splits
          fetch_outcome.splits)
qed

lemma start_sends_request:
  assumes "selectedPlot st = Some sel" and "createOrder_validation od = None"
      and "isHealthy (health (service st))"
      and "now - lastHealthCheck (health (service st)) < 30000"
  shows "handleOrderSubmit_start False now od st =
           (st\<lparr> orderError := None, plots := optimisticPlots sel (plots st) \<rparr>,
            [SetPlots (optimisticPlots sel (plots st)), RenderPlots (optimisticPlots sel (plots st)),
             Sent (PostOrder (id sel) od)],
            Some (AwaitExchange (plots st)))"
  using assms by (simp add: handleOrderSubmit_start_def Let_def)

lemma sample_start:
  "handleOrderSubmit_start False 1000 sample_applicant sample_state =
     (pending_state,
      [SetPlots [mock_plot_001\<lparr> status := ''pending'' \<rparr>, mock_plot_002],
       RenderPlots [mock_plot_001\<lparr> status := ''pending'' \<rparr>, mock_plot_002],
       Sent (PostOrder (JStr ''plot-001'') sample_applicant)],
      Some (AwaitExchange [mock_plot_001, mock_plot_002]))"
proof -
  have "handleOrderSubmit_start False 1000 sample_applicant sample_state =
     (sample_state\<lparr> orderError := None,
        plots := optimisticPlots mock_plot_001 (plots sample_state) \<rparr>,
      [SetPlots (optimisticPlots mock_plot_001 (plots sample_state)),
       RenderPlots (optimisticPlots mock_plot_001 (plots sample_state)),
       Sent (PostOrder (id mock_plot_001) sample_applicant)],
      Some (AwaitExchange (plots sample_state)))"
    by (rule start_sends_request [OF sample_selected sample_applicant_valid])
       (simp_all add: sample_state_def initial_health_def)
  then show ?thesis
    by (simp add: sample_plots sample_optimistic pending_state_def)
       (simp add: sample_state_def mock_plot_001_def)
qed

lemma pending_start:
  "handleOrderSubmit_start False 1200 sample_applicant pending_state =
     (pending_state,
      [SetPlots [mock_plot_001\<lparr> status := ''pending'' \<rparr>, mock_plot_002],
       RenderPlots [mock_plot_001\<lparr> status := ''pending'' \<rparr>, mock_plot_002],
       Sent (PostOrder (JStr ''plot-001'') sample_applicant)],
      Some (AwaitExchange [mock_plot_001\<lparr> status := ''pending'' \<rparr>, mock_plot_002]))"
proof -
  have sel: "selectedPlot pending_state = Some mock_plot_001"
    by (simp add: pending_state_def sample_state_def)
  have opt: "optimisticPlots mock_plot_001 (plots pending_state)
      = [mock_plot_001\<lparr> status := ''pending'' \<rparr>, mock_plot_002]"
    by (simp add: pending_state_def optimisticPlots_def mock_plot_001_def mock_plot_002_def)
  have "handleOrderSubmit_start False 1200 sample_applicant pending_state =
     (pending_state\<lparr> orderError := None,
        plots := optimisticPlots mock_plot_001 (plots pending_state) \<rparr>,
      [SetPlots (optimisticPlots mock_plot_001 (plots pending_state)),
       RenderPlots (optimisticPlots mock_plot_001 (plots pending_state)),
       Sent (PostOrder (id mock_plot_001) sample_applicant)],
      Some (AwaitExchange (plots pending_state)))"
    by (rule start_sends_request [OF sel sample_applicant_valid])
       (simp_all add: pending_state_def sample_state_def initial_health_def)
  then show ?thesis
    by (simp add: opt)
       (simp add: pending_state_def sample_state_def mock_plot_001_def)
qed

text \<open>
  Claim C2, as the specification states it: of two overlapping calls for the same plot,
  one reaches the remote source and the other is rejected before the network. Nothing in
  the handler or the service records a call in flight. Below, a call starts at time 1000
  and waits for the answer to its order request; a second call for the same plot starts at
  time 1200, while the first waits, and sends its own order request.
\<close>

theorem two_submissions_counterexample:
  "snd (snd (handleOrderSubmit_start False 1000 sample_applicant sample_state))
     = Some (AwaitExchange [mock_plot_001, mock_plot_002])
   \<and> snd (snd (handleOrderSubmit_start False 1200 sample_applicant
                  (fst (handleOrderSubmit_start False 1000 sample_applicant sample_state))))
     = Some (AwaitExchange [mock_plot_001\<lparr> status := ''pending'' \<rparr>, mock_plot_002])
   \<and> filter is_order_request
        (fst (snd (handleOrderSubmit_start False 1000 sample_applicant sample_state))
         @ fst (snd (handleOrderSubmit_start False 1200 sample_applicant
                       (fst (handleOrderSubmit_start False 1000 sample_applicant sample_state)))))
     = [Sent (PostOrder (JStr ''plot-001'') sample_applicant),
        Sent (PostOrder (JStr ''plot-001'') sample_applicant)]"
  by (simp add: sample_start pending_start)

text \<open>
  Claim C2, amended. With a configured backend, valid applicant data and a health state
  that is healthy and fresh, every call for the selected plot sends one order request and
  waits for its answer, whether or not an earlier call for the same plot is still waiting:
  two overlapping calls make two remote submissions, and which of them commits is left to
  the remote source.
\<close>

theorem overlapping_calls_both_submit:
  assumes "selectedPlot st = Some sel"
      and "createOrder_validation od1 = None" and "createOrder_validation od2 = None"
      and "isHealthy (health (service st))"
      and "now1 - lastHealthCheck (health (service st)) < 30000"
      and "now2 - lastHealthCheck (health (service st)) < 30000"
  shows "\<exists>st1 eff1 st2 eff2.
           handleOrderSubmit_start False now1 od1 st = (st1, eff1, Some (AwaitExchange (plots st)))
         \<and> handleOrderSubmit_start False now2 od2 st1 = (st2, eff2, Some (AwaitExchange (plots st1)))
         \<and> filter is_order_request (eff1 @ eff2)
             = [Sent (PostOrder (id sel) od1), Sent (PostOrder (id sel) od2)]"
proof -
  let ?st1 = "st\<lparr> orderError := None, plots := optimisticPlots sel (plots st) \<rparr>"
  have 1: "handleOrderSubmit_start False now1 od1 st =
           (?st1,
            [SetPlots (optimisticPlots sel (plots st)), RenderPlots (optimisticPlots sel (plots st)),
             Sent (PostOrder (id sel) od1)],
            Some (AwaitExchange (plots st)))"
    by (rule start_sends_request [OF assms(1,2,4,5)])
  have 2: "handleOrderSubmit_start False now2 od2 ?st1 =
           (?st1\<lparr> orderError := None, plots := optimisticPlots sel (plots ?st1) \<rparr>,
            [SetPlots (optimisticPlots sel (plots ?st1)), RenderPlots (optimisticPlots sel (plots ?st1)),
             Sent (PostOrder (id sel) od2)],
            Some (AwaitExchange (plots ?st1)))"
    by (rule start_sends_request) (use assms in simp_all)
  show ?thesis
    by (intro exI conjI, rule 1, rule 2) simp
qed

theorem overlapping_calls_both_submit_witness:
  "\<exists>st1 eff1 st2 eff2.
     handleOrderSubmit_start False 1000 sample_applicant sample_state
       = (st1, eff1, Some (AwaitExchange [mock_plot_001, mock_plot_002]))
   \<and> handleOrderSubmit_start False 1200 sample_applicant st1
       = (st2, eff2, Some (AwaitExchange (plots st1)))
   \<and> filter is_order_request (eff1 @ eff2)
       = [Sent (PostOrder (JStr ''plot-001'') sample_applicant),
          Sent (PostOrder (JStr ''plot-001'') sample_applicant)]"
proof -
  have h1: "isHealthy (health (service sample_state))"
    and h2: "1000 - lastHealthCheck (health (service sample_state)) < 30000"
    and h3: "1200 - lastHealthCheck (health (service sample_state)) < 30000"
    by (simp_all add: sample_state_def initial_health_def)
  show ?thesis
    using overlapping_calls_both_submit
      [OF sample_selected sample_applicant_valid sample_applicant_valid h1 h2 h3]
    by (simp add: sample_plots mock_plot_001_def)
qed

text \<open>
  What a call sets back is what it remembers, and a call that starts while another one
  waits remembers the optimistic state of that other call. Here two calls for the first
  plot overlap, with a configured backend: the first starts in \<open>sample_state\<close> and
  remembers both plots as they are, the second starts in \<open>pending_state\<close> and remembers
  the first plot pending. Both order requests fail, the first one first. When both calls
  have ended the first plot is pending on the screen, as it was when the second call
  started; it was available when the first call started.
\<close>

lemma overlapping_failures_restore_optimistic_state:
  "map status (plots sample_state) = [''available'', ''taken'']
   \<and> map status (plots
        (fst (handleOrderSubmit_resume
                (AwaitExchange [mock_plot_001\<lparr> status := ''pending'' \<rparr>, mock_plot_002])
                (ExchangeDone (RequestFailed ''Internal server error. Please try again later.'')
                   ''Cannot read properties of null'')
                (fst (handleOrderSubmit_resume (AwaitExchange [mock_plot_001, mock_plot_002])
                        (ExchangeDone
                           (RequestFailed ''Internal server error. Please try again later.'')
                           ''Cannot read properties of null'')
                        pending_state)))))
       = [''pending'', ''taken'']"
  by (simp add: submit_failed_def sample_plots mock_plot_001_def mock_plot_002_def)

text \<open>
  With mock data, two calls for the first plot overlap again; the plots of
  \<open>sample_state\<close> are the two objects of \<open>mockPlots\<close>. The second call, which
  remembers a copy of the first plot and the second object, goes on first and creates the
  order: the mock backend sets the first object to pending. Then the first call goes on: the
  mock backend throws, and the call sets back the two objects it remembers. The first of
  them now reads as the mock backend has it: pending, with a new time stamp.
\<close>

lemma initial_mock_accepts:
  "\<exists>created. MockDataService_createOrder (JStr ''plot-001'') sample_applicant
       ''2024-02-01T08:00:00.000Z'' ''2024-02-01T08:00:00.000Z'' ''2024-02-01T08:00:00.000Z''
       initial_mock = (Inr created, ordered_mock)"
  by (simp add: ordered_mock_def MockDataService_createOrder_def initial_mock_def
        mock_plot_001_def Let_def)

lemma mock_overlap_restores_objects:
  "handleOrderSubmit_resume
       (AwaitMockDelay [mock_plot_001\<lparr> status := ''pending'' \<rparr>, mock_plot_002]
          (JStr ''plot-001'') sample_applicant)
       (MockDelayElapsed ''2024-02-01T08:00:00.000Z'' ''2024-02-01T08:00:00.000Z''
          ''2024-02-01T08:00:00.000Z'' [None, Some 1] [None, Some 1]) pending_state
     = (ordered_state, [ScheduleLoadPlots 1000], None)
   \<and> handleOrderSubmit_resume
       (AwaitMockDelay [mock_plot_001, mock_plot_002] (JStr ''plot-001'') sample_applicant)
       (MockDelayElapsed ''2024-02-01T08:00:01.000Z'' ''2024-02-01T08:00:01.000Z''
          ''2024-02-01T08:00:01.000Z'' [Some 0, Some 1] [None, Some 1]) ordered_state
     = (ordered_state
          \<lparr> plots := [mock_plot_001\<lparr> status := ''pending'',
                                     updated_at := JStr ''2024-02-01T08:00:00.000Z'' \<rparr>,
                       mock_plot_002],
            orderError := Some (''Failed to submit order: '' @
              ''Plot is not available for ordering. Current status: pending'') \<rparr>,
        [SetPlots [mock_plot_001\<lparr> status := ''pending'',
                                  updated_at := JStr ''2024-02-01T08:00:00.000Z'' \<rparr>,
                   mock_plot_002],
         RenderPlots [mock_plot_001\<lparr> status := ''pending'',
                                     updated_at := JStr ''2024-02-01T08:00:00.000Z'' \<rparr>,
                      mock_plot_002]],
        None)"
proof -
  obtain created where accepted:
    "MockDataService_createOrder (JStr ''plot-001'') sample_applicant
       ''2024-02-01T08:00:00.000Z'' ''2024-02-01T08:00:00.000Z'' ''2024-02-01T08:00:00.000Z''
       initial_mock = (Inr created, ordered_mock)"
    using initial_mock_accepts by blast
  have store: "mock (service pending_state) = initial_mock"
    by (simp add: pending_state_def sample_state_def)
  have shown: "plots pending_state = [mock_plot_001\<lparr> status := ''pending'' \<rparr>, mock_plot_002]"
    by (simp add: pending_state_def)
  have second: "handleOrderSubmit_resume
       (AwaitMockDelay [mock_plot_001\<lparr> status := ''pending'' \<rparr>, mock_plot_002]
          (JStr ''plot-001'') sample_applicant)
       (MockDelayElapsed ''2024-02-01T08:00:00.000Z'' ''2024-02-01T08:00:00.000Z''
          ''2024-02-01T08:00:00.000Z'' [None, Some 1] [None, Some 1]) pending_state
     = (ordered_state, [ScheduleLoadPlots 1000], None)"
    by (simp add: store accepted shown ordered_mock_plots submit_succeeded_def)
       (simp add: ordered_state_def set_mock_def pending_state_def)
  have store': "mock (service ordered_state) = ordered_mock"
    by (simp add: ordered_state_def set_mock_def)
  have first: "handleOrderSubmit_resume
       (AwaitMockDelay [mock_plot_001, mock_plot_002] (JStr ''plot-001'') sample_applicant)
       (MockDelayElapsed ''2024-02-01T08:00:01.000Z'' ''2024-02-01T08:00:01.000Z''
          ''2024-02-01T08:00:01.000Z'' [Some 0, Some 1] [None, Some 1]) ordered_state
     = (ordered_state
          \<lparr> plots := [mock_plot_001\<lparr> status := ''pending'',
                                     updated_at := JStr ''2024-02-01T08:00:00.000Z'' \<rparr>,
                       mock_plot_002],
            orderError := Some (''Failed to submit order: '' @
              ''Plot is not available for ordering. Current status: pending'') \<rparr>,
        [SetPlots [mock_plot_001\<lparr> status := ''pending'',
                                  updated_at := JStr ''2024-02-01T08:00:00.000Z'' \<rparr>,
                   mock_plot_002],
         RenderPlots [mock_plot_001\<lparr> status := ''pending'',
                                     updated_at := JStr ''2024-02-01T08:00:00.000Z'' \<rparr>,
                      mock_plot_002]],
        None)"
    by (simp add: store' ordered_mock_rejects ordered_mock_plots submit_failed_def set_mock_def)
  show ?thesis by (intro conjI second first)
qed


section \<open>Status normalisation and orderability\<close>

lemma normalizeStatus_cases:
  "normalizeStatus st =
     (if st = JStr ''available'' then ''available''
      else if st = JStr ''taken'' then ''taken'' else ''pending'')"
  by (auto simp: normalizeStatus_def)

text \<open>
  Claim C6, as the specification states it, ends with: a reserve against a plot that is not
  available is rejected. The handler does not look at the status. Below, the selected plot
  is pending in the plot set (the state after a first call has started), the applicant
  data are valid and the remote source accepts: the order request is sent and the call
  ends without an error.
\<close>

theorem reserve_on_pending_plot_counterexample:
  "map status (plots pending_state) = [''pending'', ''taken'']
   \<and> selectedPlot pending_state = Some mock_plot_001
   \<and> snd (handleOrderSubmit False accepting_env sample_applicant pending_state)
       = [SetPlots [mock_plot_001\<lparr> status := ''pending'' \<rparr>, mock_plot_002],
          RenderPlots [mock_plot_001\<lparr> status := ''pending'' \<rparr>, mock_plot_002],
          Sent (PostOrder (JStr ''plot-001'') sample_applicant),
          ScheduleLoadPlots 1000]
   \<and> orderError (fst (handleOrderSubmit False accepting_env sample_applicant pending_state)) = None"
proof -
  have sel: "selectedPlot pending_state = Some mock_plot_001"
    by (simp add: pending_state_def sample_state_def)
  have opt: "optimisticPlots mock_plot_001 (plots pending_state)
      = [mock_plot_001\<lparr> status := ''pending'' \<rparr>, mock_plot_002]"
    by (simp add: pending_state_def optimisticPlots_def mock_plot_001_def mock_plot_002_def)
  have cr: "PlotService_createOrder False accepting_env (id mock_plot_001) sample_applicant
              (service pending_state)
            = (Inr (ApiOrder (JObj [(''id'', JStr ''order-1'')])), service pending_state,
               [PostOrder (JStr ''plot-001'') sample_applicant])"
    by (simp add: PlotService_createOrder_def sample_applicant_valid fetchWithErrorHandling_def
          checkApiHealth_def accepting_env_def sample_env_def pending_state_def sample_state_def
          initial_health_def mock_plot_001_def get_prop_def)
  have "map status (plots pending_state) = [''pending'', ''taken'']"
    by (simp add: pending_state_def mock_plot_002_def)
  then show ?thesis
    by (simp add: handleOrderSubmit_def sel cr opt)
qed

text \<open>
  Claim C6, amended. Every raw status other than the three known strings (another string
  such as "archived", \<open>null\<close>, \<open>undefined\<close>, a value of another type) is normalised to
  "pending", and only the string "available" is normalised to "available". For a plot
  whose status is not "available", the popup offers no order button, a click on the plot
  does not select it or open the order form, and the mock backend throws and leaves its
  state unchanged. (The submit handler itself makes no status check; with a configured
  backend the decision is the remote source's.)
\<close>

theorem non_available_not_orderable:
  "(st \<notin> {JStr ''available'', JStr ''pending'', JStr ''taken''} \<longrightarrow> normalizeStatus st = ''pending'')
   \<and> (normalizeStatus st = ''available'' \<longleftrightarrow> st = JStr ''available'')
   \<and> (status p \<noteq> ''available'' \<longrightarrow>
         createPopupContent_action p \<noteq> OrderButton
       \<and> handlePlotClick p s = (s, None)
       \<and> (find (\<lambda>q. strict_eq (id q) plotId) (mockPlots ms) = Some p \<longrightarrow>
            MockDataService_createOrder plotId od t1 t2 t3 ms
              = (Inl (''Plot is not available for ordering. Current status: '' @ status p), ms)))"
  by (simp add: normalizeStatus_cases createPopupContent_action_def handlePlotClick_def
        MockDataService_createOrder_def)

theorem non_available_not_orderable_witness:
  "normalizeStatus (JStr ''archived'') = ''pending''
   \<and> createPopupContent_action archived_plot = StatusNotice ''Order Pending''
   \<and> handlePlotClick archived_plot sample_state = (sample_state, None)
   \<and> MockDataService_createOrder (JStr ''plot-001'') sample_applicant ''t1'' ''t2'' ''t3''
        (initial_mock\<lparr> mockPlots := [archived_plot, mock_plot_002] \<rparr>)
      = (Inl ''Plot is not available for ordering. Current status: pending'',
         initial_mock\<lparr> mockPlots := [archived_plot, mock_plot_002] \<rparr>)"
proof -
  have n: "normalizeStatus (JStr ''archived'') = ''pending''"
    using non_available_not_orderable [where st = "JStr ''archived''"] by simp
  have st: "status archived_plot = ''pending''" by (simp add: archived_plot_def n)
  have f: "find (\<lambda>q. strict_eq (id q) (JStr ''plot-001''))
             (mockPlots (initial_mock\<lparr> mockPlots := [archived_plot, mock_plot_002] \<rparr>))
           = Some archived_plot"
    by (simp add: archived_plot_def mock_plot_001_def)
  show ?thesis
    using non_available_not_orderable [where p = archived_plot and s = sample_state
        and plotId = "JStr ''plot-001''" and od = sample_applicant
        and ms = "initial_mock\<lparr> mockPlots := [archived_plot, mock_plot_002] \<rparr>"
        and ?t1.0 = "''t1''" and ?t2.0 = "''t2''" and ?t3.0 = "''t3''" and st = "JStr ''archived''"]
      f st n
    by (simp add: createPopupContent_action_def)
qed


section \<open>Normalisation of loaded plots\<close>

text \<open>
  What \<open>getAllPlots\<close> returns is normalised: every plot has a non-negative area (never
  NaN), truthy district, ward and village (the string "Unknown" when the raw value is
  absent or empty), and one of the three statuses.
\<close>

lemma math_max0_nonneg: "num_nonneg (math_max0 (num_or_zero n))"
  by (cases n) (auto simp: num_nonneg_def math_max0_def num_or_zero_def)

lemma truthy_js_or: "truthy d \<Longrightarrow> truthy (js_or a d)"
  by (simp add: js_or_def)

lemma getAllPlots_feature_normalised:
  assumes "getAllPlots_feature ps now1 now2 feature = Some p"
  shows "num_nonneg (area_hectares p) \<and> truthy (district p) \<and> truthy (ward p)
       \<and> truthy (village p) \<and> status p \<in> {''available'', ''taken'', ''pending''}"
  using assms
  by (auto simp: getAllPlots_feature_def math_max0_nonneg truthy_js_or normalizeStatus_cases
           split: option.splits if_splits)

lemma getAllPlots_normalised:
  assumes "fst (getAllPlots ps clock now probe outcome h) = Inr found" and "p \<in> set found"
  shows "num_nonneg (area_hectares p) \<and> truthy (district p) \<and> truthy (ward p)
       \<and> truthy (village p) \<and> status p \<in> {''available'', ''taken'', ''pending''}"
proof -
  from assms obtain i feature where
    "getAllPlots_feature ps (fst (clock i)) (snd (clock i)) feature = Some p"
    by (auto simp: getAllPlots_def List.map_filter_def
             split: prod.splits sum.splits if_splits jsval.splits)
  then show ?thesis by (rule getAllPlots_feature_normalised)
qed

text \<open>
  Claim C8 says the same of \<open>getPlotById\<close> and \<open>searchPlots\<close>. They build the plot
  without the coercions of \<open>getAllPlots\<close>: for the raw feature above (area -5, no
  district, ward or village) both return the area -5 and \<open>undefined\<close> for district, ward
  and village, where \<open>getAllPlots\<close> returns the area 0 and "Unknown".
\<close>

theorem getPlotById_search_skip_normalisation:
  "fst (getPlotById ps 1000 ProbeThrows (ResponseJson raw_feature) (JStr ''plot-009'') initial_health)
     = Some \<lparr> id = JStr ''plot-009'', plot_code = JStr ''DSM/ILALA/009'', status = ''available'',
              area_hectares = Fin (- 5), district = JUndefined, ward = JUndefined,
              village = JUndefined, geometry = geometry mock_plot_001, attributes = JObj [],
              created_at = JUndefined, updated_at = JUndefined \<rparr>
   \<and> fst (searchPlots ps 1000 ProbeThrows
            (ResponseJson (JObj [(''type'', JStr ''FeatureCollection''),
                                 (''features'', JArr [raw_feature])])) initial_health)
     = Inr [\<lparr> id = JStr ''plot-009'', plot_code = JStr ''DSM/ILALA/009'', status = ''available'',
              area_hectares = Fin (- 5), district = JUndefined, ward = JUndefined,
              village = JUndefined, geometry = geometry mock_plot_001, attributes = JObj [],
              created_at = JUndefined, updated_at = JUndefined \<rparr>]
   \<and> fst (getAllPlots ps (\<lambda>i. (''t'', ''t'')) 1000 ProbeThrows
            (ResponseJson (JObj [(''type'', JStr ''FeatureCollection''),
                                 (''features'', JArr [raw_feature])])) initial_health)
     = Inr [\<lparr> id = JStr ''plot-009'', plot_code = JStr ''DSM/ILALA/009'', status = ''available'',
              area_hectares = Fin 0, district = JStr ''Unknown'', ward = JStr ''Unknown'',
              village = JStr ''Unknown'', geometry = geometry mock_plot_001, attributes = JObj [],
              created_at = JStr ''t'', updated_at = JStr ''t'' \<rparr>]"
  by (simp add: getPlotById_def searchPlots_def getAllPlots_def fetchWithErrorHandling_def
        checkApiHealth_def initial_health_def raw_feature_def get_prop_def plot_of_feature_def
        searchPlots_feature_def getAllPlots_feature_def normalizeStatus_cases js_or_def
        List.map_filter_def math_max0_def num_or_zero_def mock_plot_001_def
        polygon_geometry_def enumerate_eq_zip)


theorem getPlotById_search_skip_normalisation_witness:
  "map_option area_hectares
     (fst (getPlotById (\<lambda>s. NaN) 1000 ProbeThrows (ResponseJson raw_feature) (JStr ''plot-009'')
             initial_health)) = Some (Fin (- 5))
   \<and> map_option district
     (fst (getPlotById (\<lambda>s. NaN) 1000 ProbeThrows (ResponseJson raw_feature) (JStr ''plot-009'')
             initial_health)) = Some JUndefined
   \<and> \<not> num_nonneg (Fin (- 5)) \<and> \<not> truthy JUndefined"
  using getPlotById_search_skip_normalisation [where ps = "\<lambda>s. NaN"]
  by (simp add: num_nonneg_def)

section \<open>Centroid\<close>

lemma edges_simps [simp]:
  "edges [] = []" "edges [p] = []" "edges (p # q # rest) = (p, q) # edges (q # rest)"
  by (simp_all add: edges_def)

lemma edge_sum_simps [simp]:
  "edge_sum f [] = 0" "edge_sum f [p] = 0"
  "edge_sum f (p # q # rest) = f p q + edge_sum f (q # rest)"
  by (simp_all add: edge_sum_def)

lemma shoelace_sums:
  "shoelace (\<lambda>x. x) ring (a, x, y) =
     (a + edge_sum area_term ring,
      x + edge_sum (\<lambda>p q. (px p + px q) * area_term p q) ring,
      y + edge_sum (\<lambda>p q. (py p + py q) * area_term p q) ring)"
proof (induction ring arbitrary: a x y rule: induct_list012)
  case (3 c0 c1 rest)
  have "shoelace (\<lambda>x. x) (c0 # c1 # rest) (a, x, y)
          = shoelace (\<lambda>x. x) (c1 # rest)
              (a + area_term c0 c1, x + (px c0 + px c1) * area_term c0 c1,
               y + (py c0 + py c1) * area_term c0 c1)"
    by (simp add: Let_def px_def py_def area_term_def)
  then show ?case by (simp add: "3.IH"(2) add.assoc)
qed simp_all

lemma edge_sum_telescope:
  assumes "\<And>p q. f p q = g q - g p" and "ring \<noteq> []"
  shows "edge_sum f ring = g (last ring) - g (hd ring)"
  using assms(2)
proof (induction ring rule: induct_list012)
  case (3 p q rest)
  then show ?case by (simp add: assms(1))
qed simp_all

lemma edge_sum_add:
  "edge_sum (\<lambda>p q. f p q + g p q) ring = edge_sum f ring + edge_sum g ring"
  by (induction ring rule: induct_list012) (simp_all add: algebra_simps)

lemma edge_sum_cong:
  "(\<And>p q. f p q = g p q) \<Longrightarrow> edge_sum f ring = edge_sum g ring"
  by (simp add: edge_sum_def)

text \<open>The fan from a base point o.\<close>

lemma fan_area:
  assumes "ring_closed ring"
  shows "edge_sum (cross3 b) ring = edge_sum area_term ring"
proof -
  define g where "g p = py b * px p - px b * py p" for p
  have "edge_sum (cross3 b) ring = edge_sum (\<lambda>p q. area_term p q + (g q - g p)) ring"
    by (rule edge_sum_cong) (simp add: cross3_def area_term_def g_def algebra_simps)
  also have "\<dots> = edge_sum area_term ring + edge_sum (\<lambda>p q. g q - g p) ring"
    by (rule edge_sum_add)
  also have "edge_sum (\<lambda>p q. g q - g p) ring = g (last ring) - g (hd ring)"
    using assms by (intro edge_sum_telescope) (simp_all add: ring_closed_def)
  also have "\<dots> = 0" using assms by (simp add: ring_closed_def g_def)
  finally show ?thesis by simp
qed

lemma fan_x:
  assumes "ring_closed ring"
  shows "edge_sum (\<lambda>p q. (px p + px q + px b) * cross3 b p q) ring
           = edge_sum (\<lambda>p q. (px p + px q) * area_term p q) ring"
proof -
  define g where
    "g p = py b * (px p * px p) - px b * (px p * py p) + px b * (py b * px p - px b * py p)" for p
  have "edge_sum (\<lambda>p q. (px p + px q + px b) * cross3 b p q) ring
          = edge_sum (\<lambda>p q. (px p + px q) * area_term p q + (g q - g p)) ring"
    by (rule edge_sum_cong) (simp add: cross3_def area_term_def g_def algebra_simps)
  also have "\<dots> = edge_sum (\<lambda>p q. (px p + px q) * area_term p q) ring
                    + edge_sum (\<lambda>p q. g q - g p) ring"
    by (rule edge_sum_add)
  also have "edge_sum (\<lambda>p q. g q - g p) ring = g (last ring) - g (hd ring)"
    using assms by (intro edge_sum_telescope) (simp_all add: ring_closed_def)
  also have "\<dots> = 0" using assms by (simp add: ring_closed_def g_def)
  finally show ?thesis by simp
qed

lemma fan_y:
  assumes "ring_closed ring"
  shows "edge_sum (\<lambda>p q. (py p + py q + py b) * cross3 b p q) ring
           = edge_sum (\<lambda>p q. (py p + py q) * area_term p q) ring"
proof -
  define g where
    "g p = py b * (px p * py p) - px b * (py p * py p) + py b * (py b * px p - px b * py p)" for p
  have "edge_sum (\<lambda>p q. (py p + py q + py b) * cross3 b p q) ring
          = edge_sum (\<lambda>p q. (py p + py q) * area_term p q + (g q - g p)) ring"
    by (rule edge_sum_cong) (simp add: cross3_def area_term_def g_def algebra_simps)
  also have "\<dots> = edge_sum (\<lambda>p q. (py p + py q) * area_term p q) ring
                    + edge_sum (\<lambda>p q. g q - g p) ring"
    by (rule edge_sum_add)
  also have "edge_sum (\<lambda>p q. g q - g p) ring = g (last ring) - g (hd ring)"
    using assms by (intro edge_sum_telescope) (simp_all add: ring_closed_def)
  also have "\<dots> = 0" using assms by (simp add: ring_closed_def g_def)
  finally show ?thesis by simp
qed


lemma edges_in_ring:
  "(p, q) \<in> set (edges ring) \<Longrightarrow> p \<in> set ring \<and> q \<in> set ring"
  by (induction ring rule: induct_list012) auto

lemma edge_sum_uminus: "edge_sum (\<lambda>p q. - f p q) ring = - edge_sum f ring"
  by (induction ring rule: induct_list012) simp_all

lemma weighted_bounds:
  assumes "\<forall>(p, q) \<in> set (edges ring). 0 \<le> c p q \<and> lo \<le> w p q \<and> w p q \<le> hi"
  shows "lo * edge_sum c ring \<le> edge_sum (\<lambda>p q. w p q * c p q) ring
       \<and> edge_sum (\<lambda>p q. w p q * c p q) ring \<le> hi * edge_sum c ring"
  using assms
proof (induction ring rule: induct_list012)
  case (3 p q rest)
  then have c: "0 \<le> c p q" and w: "lo \<le> w p q" "w p q \<le> hi"
    and rest: "\<forall>(p, q) \<in> set (edges (q # rest)). 0 \<le> c p q \<and> lo \<le> w p q \<and> w p q \<le> hi"
    by auto
  have "lo * c p q \<le> w p q * c p q" "w p q * c p q \<le> hi * c p q"
    using c w by (auto intro: mult_right_mono)
  with "3.IH"(2)[OF rest] show ?case by (simp add: algebra_simps)
qed simp_all

lemma centroid_coordinate_bounds:
  assumes side: "(\<forall>(p, q) \<in> set (edges ring). 0 \<le> c p q)
                 \<or> (\<forall>(p, q) \<in> set (edges ring). c p q \<le> 0)"
      and w: "\<forall>(p, q) \<in> set (edges ring). 3 * lo \<le> w p q \<and> w p q \<le> 3 * hi"
      and nz: "edge_sum c ring \<noteq> 0"
  shows "lo \<le> edge_sum (\<lambda>p q. w p q * c p q) ring / (6 * (edge_sum c ring * 0.5))
       \<and> edge_sum (\<lambda>p q. w p q * c p q) ring / (6 * (edge_sum c ring * 0.5)) \<le> hi"
proof -
  let ?S = "edge_sum c ring" and ?W = "edge_sum (\<lambda>p q. w p q * c p q) ring"
  have d: "6 * (?S * 0.5) = 3 * ?S" by simp
  from side show ?thesis
  proof
    assume pos: "\<forall>(p, q) \<in> set (edges ring). 0 \<le> c p q"
    with w have "\<forall>(p, q) \<in> set (edges ring). 0 \<le> c p q \<and> 3 * lo \<le> w p q \<and> w p q \<le> 3 * hi"
      by auto
    from weighted_bounds[OF this] have b: "3 * lo * ?S \<le> ?W" "?W \<le> 3 * hi * ?S" by auto
    have "0 \<le> ?S" unfolding edge_sum_def using pos by (intro sum_list_nonneg) auto
    with nz have "0 < ?S" by simp
    with b show ?thesis unfolding d by (simp add: field_simps)
  next
    assume neg: "\<forall>(p, q) \<in> set (edges ring). c p q \<le> 0"
    with w have "\<forall>(p, q) \<in> set (edges ring).
        0 \<le> - c p q \<and> 3 * lo \<le> w p q \<and> w p q \<le> 3 * hi"
      by auto
    from weighted_bounds[OF this]
    have b: "?W \<le> 3 * lo * ?S" "3 * hi * ?S \<le> ?W"
      by (simp_all add: edge_sum_uminus)
    have "0 \<le> edge_sum (\<lambda>p q. - c p q) ring"
      unfolding edge_sum_def using neg by (intro sum_list_nonneg) auto
    with nz have "?S < 0" by (simp add: edge_sum_uminus)
    with b show ?thesis unfolding d by (simp add: field_simps)
  qed
qed

lemma cross3_cyclic: "cross3 b p q = cross3 p q b"
  by (simp add: cross3_def algebra_simps)

lemma mean_bounds:
  assumes "xs \<noteq> []" and "\<forall>x \<in> set xs. lo \<le> x \<and> x \<le> hi"
  shows "lo \<le> mean xs \<and> mean xs \<le> (hi::real)"
proof -
  have "real (length xs) * lo \<le> sum_list xs \<and> sum_list xs \<le> real (length xs) * hi"
    using assms(2) by (induction xs) (auto simp: algebra_simps)
  moreover have "0 < real (length xs)" using assms(1) by simp
  ultimately show ?thesis by (simp add: mean_def field_simps)
qed


lemma foldl_sum:
  "foldl (\<lambda>sum c. sum + f c) a xs = a + sum_list (map f xs)" for a :: real
  by (induction xs arbitrary: a) (simp_all add: algebra_simps)

lemma getPolygonCentroid_wellformed:
  assumes "ring_wellformed ring"
  shows "getPolygonCentroid (\<lambda>x. x) (ring # others) =
           (if \<bar>edge_sum area_term ring\<bar> < 1 / 10 ^ 10
            then (Fin (mean (map px ring)), Fin (mean (map py ring)))
            else (Fin (edge_sum (\<lambda>p q. (px p + px q) * area_term p q) ring
                        / (6 * (edge_sum area_term ring * 0.5))),
                  Fin (edge_sum (\<lambda>p q. (py p + py q) * area_term p q) ring
                        / (6 * (edge_sum area_term ring * 0.5)))))"
proof -
  from assms have len: "\<not> length ring < 4" and two: "\<not> (\<exists>c \<in> set ring. length c < 2)"
    by (auto simp: ring_wellformed_def)
  have sx: "foldl (\<lambda>sum coord. sum + coord ! 0) 0 ring = sum_list (map px ring)"
    and sy: "foldl (\<lambda>sum coord. sum + coord ! 1) 0 ring = sum_list (map py ring)"
    by (simp_all add: foldl_sum) (simp_all add: px_def [abs_def] py_def [abs_def])
  show ?thesis
    unfolding getPolygonCentroid_def
    by (simp only: list.case len two if_False shoelace_sums prod.case sx sy mean_def
          length_map add_0)
qed

lemma signed_area_sum: "signed_area ring = edge_sum area_term ring / 2"
  by (simp add: signed_area_def shoelace_sums)

lemma convex_centroid_in_box:
  assumes wf: "ring_wellformed ring" and cl: "ring_closed ring" and cv: "ring_convex ring"
      and box: "\<forall>c \<in> set ring. xlo \<le> px c \<and> px c \<le> xhi \<and> ylo \<le> py c \<and> py c \<le> yhi"
  shows "\<exists>cx cy. getPolygonCentroid (\<lambda>x. x) (ring # others) = (Fin cx, Fin cy)
           \<and> xlo \<le> cx \<and> cx \<le> xhi \<and> ylo \<le> cy \<and> cy \<le> yhi"
proof (cases "\<bar>edge_sum area_term ring\<bar> < 1 / 10 ^ 10")
  case True
  from wf have ne: "ring \<noteq> []" by (auto simp: ring_wellformed_def)
  have "xlo \<le> mean (map px ring) \<and> mean (map px ring) \<le> xhi"
    using ne box by (intro mean_bounds) auto
  moreover have "ylo \<le> mean (map py ring) \<and> mean (map py ring) \<le> yhi"
    using ne box by (intro mean_bounds) auto
  ultimately show ?thesis
    using True by (simp add: getPolygonCentroid_wellformed[OF wf])
next
  case False
  from wf have ne: "ring \<noteq> []" by (auto simp: ring_wellformed_def)
  define b where "b = hd ring"
  have b: "b \<in> set ring" using ne by (simp add: b_def)
  have S: "edge_sum (cross3 b) ring = edge_sum area_term ring" by (rule fan_area[OF cl])
  with False have nz: "edge_sum (cross3 b) ring \<noteq> 0" by auto
  have side: "(\<forall>(p, q) \<in> set (edges ring). 0 \<le> cross3 b p q)
                 \<or> (\<forall>(p, q) \<in> set (edges ring). cross3 b p q \<le> 0)"
    using cv b unfolding ring_convex_def cross3_cyclic[of b] by fast
  have w: "3 * xlo \<le> px p + px q + px b \<and> px p + px q + px b \<le> 3 * xhi
         \<and> 3 * ylo \<le> py p + py q + py b \<and> py p + py q + py b \<le> 3 * yhi"
    if "(p, q) \<in> set (edges ring)" for p q
  proof -
    from that have "p \<in> set ring" "q \<in> set ring" using edges_in_ring by blast+
    with box b have "xlo \<le> px p \<and> px p \<le> xhi \<and> ylo \<le> py p \<and> py p \<le> yhi"
      "xlo \<le> px q \<and> px q \<le> xhi \<and> ylo \<le> py q \<and> py q \<le> yhi"
      "xlo \<le> px b \<and> px b \<le> xhi \<and> ylo \<le> py b \<and> py b \<le> yhi"
      by blast+
    then show ?thesis by linarith
  qed
  have wx: "\<forall>(p, q) \<in> set (edges ring).
              3 * xlo \<le> px p + px q + px b \<and> px p + px q + px b \<le> 3 * xhi"
    using w by blast
  have wy: "\<forall>(p, q) \<in> set (edges ring).
              3 * ylo \<le> py p + py q + py b \<and> py p + py q + py b \<le> 3 * yhi"
    using w by blast
  have "xlo \<le> edge_sum (\<lambda>p q. (px p + px q) * area_term p q) ring
                 / (6 * (edge_sum area_term ring * 0.5))
      \<and> edge_sum (\<lambda>p q. (px p + px q) * area_term p q) ring
                 / (6 * (edge_sum area_term ring * 0.5)) \<le> xhi"
    using centroid_coordinate_bounds[OF side wx nz] by (simp only: fan_x[OF cl] S)
  moreover
  have "ylo \<le> edge_sum (\<lambda>p q. (py p + py q) * area_term p q) ring
                 / (6 * (edge_sum area_term ring * 0.5))
      \<and> edge_sum (\<lambda>p q. (py p + py q) * area_term p q) ring
                 / (6 * (edge_sum area_term ring * 0.5)) \<le> yhi"
    using centroid_coordinate_bounds[OF side wy nz] by (simp only: fan_y[OF cl] S)
  ultimately show ?thesis
    using False by (simp add: getPolygonCentroid_wellformed[OF wf])
qed

text \<open>
  In exact arithmetic the centroid is as specified: for a closed convex ring of at least 4
  coordinates, every box that holds the vertices holds the centroid; a ring whose signed
  area is below half of \<open>10^-10\<close> in magnitude (the code compares twice the area with
  \<open>10^-10\<close>) gets the mean of its entries; a ring with fewer than 4 entries, or no ring,
  gets the origin.
\<close>

lemma centroid_exact_arithmetic:
  "(ring_wellformed ring \<and> ring_closed ring \<and> ring_convex ring
      \<and> (\<forall>c \<in> set ring. xlo \<le> px c \<and> px c \<le> xhi \<and> ylo \<le> py c \<and> py c \<le> yhi)
     \<longrightarrow> (\<exists>cx cy. getPolygonCentroid (\<lambda>x. x) (ring # others) = (Fin cx, Fin cy)
            \<and> xlo \<le> cx \<and> cx \<le> xhi \<and> ylo \<le> cy \<and> cy \<le> yhi))
   \<and> (ring_wellformed ring \<and> \<bar>signed_area ring\<bar> < 1 / (2 * 10 ^ 10)
     \<longrightarrow> getPolygonCentroid (\<lambda>x. x) (ring # others)
           = (Fin (mean (map px ring)), Fin (mean (map py ring))))
   \<and> (length ring < 4 \<longrightarrow> getPolygonCentroid (\<lambda>x. x) (ring # others) = (Fin 0, Fin 0))
   \<and> getPolygonCentroid (\<lambda>x. x) [] = (Fin 0, Fin 0)"
proof (intro conjI impI)
  assume "ring_wellformed ring \<and> ring_closed ring \<and> ring_convex ring
      \<and> (\<forall>c \<in> set ring. xlo \<le> px c \<and> px c \<le> xhi \<and> ylo \<le> py c \<and> py c \<le> yhi)"
  then show "\<exists>cx cy. getPolygonCentroid (\<lambda>x. x) (ring # others) = (Fin cx, Fin cy)
            \<and> xlo \<le> cx \<and> cx \<le> xhi \<and> ylo \<le> cy \<and> cy \<le> yhi"
    using convex_centroid_in_box by blast
next
  assume a: "ring_wellformed ring \<and> \<bar>signed_area ring\<bar> < 1 / (2 * 10 ^ 10)"
  then have "\<bar>edge_sum area_term ring\<bar> < 1 / 10 ^ 10"
    by (simp add: signed_area_sum field_simps)
  with a show "getPolygonCentroid (\<lambda>x. x) (ring # others)
           = (Fin (mean (map px ring)), Fin (mean (map py ring)))"
    by (simp add: getPolygonCentroid_wellformed)
next
  assume "length ring < 4"
  then show "getPolygonCentroid (\<lambda>x. x) (ring # others) = (Fin 0, Fin 0)"
    by (simp add: getPolygonCentroid_def)
next
  show "getPolygonCentroid (\<lambda>x. x) [] = (Fin 0, Fin 0)" by (simp add: getPolygonCentroid_def)
qed


lemma centroid_exact_arithmetic_example:
  "ring_wellformed plot_001_ring \<and> ring_closed plot_001_ring \<and> ring_convex plot_001_ring
   \<and> (\<exists>cx cy. getPolygonCentroid (\<lambda>x. x) [plot_001_ring] = (Fin cx, Fin cy)
         \<and> 39.2083 \<le> cx \<and> cx \<le> 39.2093 \<and> - 6.7843 \<le> cy \<and> cy \<le> - 6.7833)
   \<and> getPolygonCentroid (\<lambda>x. x) [[[39, - 6], [40, - 6], [41, - 6], [39, - 6]]]
       = (Fin (159 / 4), Fin (- 6))
   \<and> getPolygonCentroid (\<lambda>x. x) [[[39, - 6], [40, - 6], [41, - 6]]] = (Fin 0, Fin 0)"
proof -
  have wf: "ring_wellformed plot_001_ring"
    by (simp add: ring_wellformed_def plot_001_ring_def)
  have cl: "ring_closed plot_001_ring"
    by (simp add: ring_closed_def plot_001_ring_def)
  have cv: "ring_convex plot_001_ring"
    by (simp add: ring_convex_def plot_001_ring_def cross3_def px_def py_def)
  have box: "\<forall>c \<in> set plot_001_ring.
      39.2083 \<le> px c \<and> px c \<le> 39.2093 \<and> - 6.7843 \<le> py c \<and> py c \<le> - 6.7833"
    by (simp add: plot_001_ring_def px_def py_def)
  let ?line = "[[39, - 6], [40, - 6], [41, - 6], [39, - 6]] :: real list list"
  have lwf: "ring_wellformed ?line" by (simp add: ring_wellformed_def)
  have larea: "\<bar>signed_area ?line\<bar> < 1 / (2 * 10 ^ 10)"
    by (simp add: signed_area_def)
  have lmean: "mean (map px ?line) = 159 / 4" "mean (map py ?line) = - 6"
    by (simp_all add: mean_def px_def py_def)
  note thm1 = centroid_exact_arithmetic [where ring = plot_001_ring and others = "[]"
      and xlo = "39.2083" and xhi = "39.2093" and ylo = "- 6.7843" and yhi = "- 6.7833"]
  note thm2 = centroid_exact_arithmetic [where ring = ?line and others = "[]"]
  note thm3 = centroid_exact_arithmetic [where ring = "[[39, - 6], [40, - 6], [41, - 6]]" and others = "[]"]
  from thm1 wf cl cv box
  have 1: "\<exists>cx cy. getPolygonCentroid (\<lambda>x. x) [plot_001_ring] = (Fin cx, Fin cy)
         \<and> 39.2083 \<le> cx \<and> cx \<le> 39.2093 \<and> - 6.7843 \<le> cy \<and> cy \<le> - 6.7833"
    by blast
  from thm2 lwf larea lmean
  have 2: "getPolygonCentroid (\<lambda>x. x) [?line] = (Fin (159 / 4), Fin (- 6))" by simp
  from thm3 have 3: "getPolygonCentroid (\<lambda>x. x) [[[39, - 6], [40, - 6], [41, - 6]]] = (Fin 0, Fin 0)"
    by simp
  from wf cl cv 1 2 3 show ?thesis by blast
qed

subsection \<open>Double arithmetic\<close>

text \<open>
  The value of \<open>binary64\<close> at a number whose scaling into the range from \<open>2^52\<close> to
  \<open>2^53\<close> is known.
\<close>

lemma normalise_scale_up:
  "0 < m \<Longrightarrow> 2 ^ 52 \<le> m * 2 ^ n \<Longrightarrow> m * 2 ^ n < 2 ^ 53 \<Longrightarrow> n \<le> k
   \<Longrightarrow> normalise (Suc k) m e = (m * 2 ^ n, e - int n)"
proof (induction n arbitrary: m k e)
  case 0
  then show ?case by (simp add: normalise.simps)
next
  case (Suc n)
  have "(1::real) \<le> 2 ^ n" by simp
  then have "m * 2 * 1 \<le> m * 2 * 2 ^ n"
    using Suc.prems(1) by (intro mult_left_mono) simp_all
  also have "\<dots> < 2 ^ 53" using Suc.prems(3) by (simp add: mult.assoc)
  finally have small: "m < 2 ^ 52" by simp
  from Suc.prems(4) obtain k' where k: "k = Suc k'" and nk: "n \<le> k'"
    by (cases k) auto
  have "normalise (Suc k) m e = normalise (Suc k') (m * 2) (e - 1)"
    using small by (simp add: k normalise.simps)
  also have "\<dots> = (m * 2 * 2 ^ n, e - 1 - int n)"
    using Suc.prems nk by (intro Suc.IH) (simp_all add: mult.assoc)
  finally show ?case by (simp add: mult.assoc)
qed

lemma round_half_even_eq:
  assumes "of_int r - 1 / 2 < m" and "m < of_int r + 1 / 2"
  shows "round_half_even m = r"
proof (cases "of_int r \<le> m")
  case True
  with assms have "\<lfloor>m\<rfloor> = r" by (simp add: floor_unique)
  with assms show ?thesis by (simp add: round_half_even_def Let_def)
next
  case False
  with assms have "\<lfloor>m\<rfloor> = r - 1" by (intro floor_unique) simp_all
  with assms False show ?thesis by (simp add: round_half_even_def Let_def)
qed

lemma round_half_even_tie:
  assumes "m = of_int k + 1 / 2"
  shows "round_half_even m = (if even k then k else k + 1)"
proof -
  from assms have "\<lfloor>m\<rfloor> = k" by (intro floor_unique) simp_all
  with assms show ?thesis by (simp add: round_half_even_def Let_def)
qed

lemma binary64_scaled:
  assumes "2 ^ 52 \<le> \<bar>x\<bar> * 2 ^ n" and "\<bar>x\<bar> * 2 ^ n < 2 ^ 53" and "n < 2200"
  shows "binary64 x = sgn x * of_int (round_half_even (\<bar>x\<bar> * 2 ^ n)) / 2 ^ n"
proof -
  from assms(1) have nz: "x \<noteq> 0" by auto
  then have pos: "0 < \<bar>x\<bar>" by simp
  have fuel: "(2200::nat) = Suc 2199" by simp
  have "normalise (Suc 2199) \<bar>x\<bar> 0 = (\<bar>x\<bar> * 2 ^ n, 0 - int n)"
    using assms by (intro normalise_scale_up[OF pos]) simp_all
  then have "normalise 2200 \<bar>x\<bar> 0 = (\<bar>x\<bar> * 2 ^ n, - int n)"
    unfolding fuel by simp
  then show ?thesis
    using nz by (simp add: binary64_def power_int_minus divide_inverse)
qed

lemma binary64_value:
  assumes "2 ^ 52 \<le> \<bar>x\<bar> * 2 ^ n" and "\<bar>x\<bar> * 2 ^ n < 2 ^ 53" and "n < 2200"
      and "of_int r - 1 / 2 < \<bar>x\<bar> * 2 ^ n" and "\<bar>x\<bar> * 2 ^ n < of_int r + 1 / 2"
  shows "binary64 x = sgn x * of_int r / 2 ^ n"
  by (simp add: binary64_scaled[OF assms(1-3)] round_half_even_eq[OF assms(4,5)])

lemma binary64_tie:
  assumes "2 ^ 52 \<le> \<bar>x\<bar> * 2 ^ n" and "\<bar>x\<bar> * 2 ^ n < 2 ^ 53" and "n < 2200"
      and "\<bar>x\<bar> * 2 ^ n = of_int k + 1 / 2"
  shows "binary64 x = sgn x * of_int (if even k then k else k + 1) / 2 ^ n"
  by (simp add: binary64_scaled[OF assms(1-3)] round_half_even_tie[OF assms(4)])


text \<open>
  Claim C7 says that the centroid of every valid convex ring lies inside the ring's
  bounding box (and that a degenerate ring gets the mean of its vertices and an unusable
  input the origin). In exact arithmetic this holds, as shown above. The code computes in
  doubles: for the square below, of side 0.0001 degrees, closed, convex and valid, it
  returns the longitude 39.56838948549204, beyond the largest longitude of the ring,
  39.5683. The products \<open>x0 * y1\<close> and \<open>x1 * y0\<close> are near 355 and their difference is
  near 0.000004, so the rounding of the products is a large part of every term.
\<close>

theorem centroid_outside_box_in_double_arithmetic:
  "ring_wellformed small_plot_ring \<and> ring_closed small_plot_ring \<and> ring_convex small_plot_ring
   \<and> isValidGeometry (polygon_geometry
         [(39.5682, - 8.961), (39.5683, - 8.961), (39.5683, - 8.9609), (39.5682, - 8.9609),
          (39.5682, - 8.961)])
   \<and> list_all (\<lambda>c. c ! 0 \<le> 5568743160490125 / 140737488355328) small_plot_ring
   \<and> getPolygonCentroid binary64 [small_plot_ring]
       = (Fin (5568755754453519 / 140737488355328), Fin (- (5044584168160227 / 562949953421312)))
   \<and> (5568743160490125 / 140737488355328 :: real) < 5568755754453519 / 140737488355328"
proof -
  have r1: "binary64 (197841 / 5000) = 5568729086741289 / 140737488355328"
    by (rule binary64_value [where n = 47 and r = 5568729086741289, THEN trans]) simp_all
  have r2: "binary64 (- (8961 / 1000)) = - (5044594532608377 / 562949953421312)"
    by (rule binary64_value [where n = 49 and r = 5044594532608377, THEN trans]) simp_all
  have r3: "binary64 (395683 / 10000) = 5568743160490125 / 140737488355328"
    by (rule binary64_value [where n = 47 and r = 5568743160490125, THEN trans]) simp_all
  have r4: "binary64 (- (89609 / 10000)) = - (5044538237613035 / 562949953421312)"
    by (rule binary64_value [where n = 49 and r = 5044538237613035, THEN trans]) simp_all
  have r5: "binary64 (- (28091980304552346883636153177953 / 79228162514264337593543950336)) = - (6237672668286087 / 17592186044416)"
    by (rule binary64_value [where n = 44 and r = 6237672668286087, THEN trans]) simp_all
  have r6: "binary64 (- (28092051300908778272746000777125 / 79228162514264337593543950336)) = - (6237688432644001 / 17592186044416)"
    by (rule binary64_value [where n = 44 and r = 6237688432644001, THEN trans]) simp_all
  have r7: "binary64 (7882178957 / 8796093022208) = 7882178957 / 8796093022208"
    by (rule binary64_value [where n = 63 and r = 8265063682015232, THEN trans]) simp_all
  have r8: "binary64 (5568736123615707 / 70368744177664) = 5568736123615707 / 70368744177664"
    by (rule binary64_value [where n = 46 and r = 5568736123615707, THEN trans]) simp_all
  have r9: "binary64 (43893774690649476470077599 / 618970019642690137449562112) = 5109907906810925 / 72057594037927936"
    by (rule binary64_value [where n = 56 and r = 5109907906810925, THEN trans]) simp_all
  have r10: "binary64 (5109907906810925 / 72057594037927936) = 5109907906810925 / 72057594037927936"
    by (rule binary64_value [where n = 56 and r = 5109907906810925, THEN trans]) simp_all
  have r11: "binary64 (- (5044594532608377 / 281474976710656)) = - (5044594532608377 / 281474976710656)"
    by (rule binary64_value [where n = 48 and r = 5044594532608377, THEN trans]) simp_all
  have r12: "binary64 (- (39762396871522999511322789 / 2475880078570760549798248448)) = - (289309514275541 / 18014398509481984)"
    by (rule binary64_value [where n = 58 and r = 4628952228408656, THEN trans]) simp_all
  have r13: "binary64 (- (289309514275541 / 18014398509481984)) = - (289309514275541 / 18014398509481984)"
    by (rule binary64_value [where n = 58 and r = 4628952228408656, THEN trans]) simp_all
  have r14: "binary64 (- (28091737808538497686800688779375 / 79228162514264337593543950336)) = - (48731397057457 / 137438953472)"
    by (rule binary64_value [where n = 44 and r = 6237618823354496, THEN trans]) simp_all
  have r15: "binary64 (69609289505 / 17592186044416) = 69609289505 / 17592186044416"
    by (rule binary64_value [where n = 60 and r = 4561914396999680, THEN trans]) simp_all
  have r16: "binary64 (85373647419 / 17592186044416) = 85373647419 / 17592186044416"
    by (rule binary64_value [where n = 60 and r = 5595047357251584, THEN trans]) simp_all
  have r17: "binary64 (5568743160490125 / 70368744177664) = 5568743160490125 / 70368744177664"
    by (rule binary64_value [where n = 46 and r = 5568743160490125, THEN trans]) simp_all
  have r18: "binary64 (387636254837545788818638125 / 1237940039285380274899124224) = 705106239979697 / 2251799813685248"
    by (rule binary64_value [where n = 54 and r = 5640849919837576, THEN trans]) simp_all
  have r19: "binary64 (27673307586161229 / 72057594037927936) = 6918326896540307 / 18014398509481984"
    by (rule binary64_value [where n = 54 and r = 6918326896540307, THEN trans]) simp_all
  have r20: "binary64 (- (2522283192555353 / 140737488355328)) = - (2522283192555353 / 140737488355328)"
    by (rule binary64_value [where n = 48 and r = 5044566385110706, THEN trans]) simp_all
  have r21: "binary64 (- (175574340964181227714470265 / 2475880078570760549798248448)) = - (2554942925987143 / 36028797018963968)"
    by (rule binary64_value [where n = 56 and r = 5109885851974286, THEN trans]) simp_all
  have r22: "binary64 (- (3133561954538225 / 36028797018963968)) = - (3133561954538225 / 36028797018963968)"
    by (rule binary64_value [where n = 56 and r = 6267123909076450, THEN trans]) simp_all
  have r23: "binary64 (- (28091666812974347922857939102115 / 79228162514264337593543950336)) = - (3118801529586251 / 8796093022208)"
    by (rule binary64_value [where n = 44 and r = 6237603059172502, THEN trans]) simp_all
  have r24: "binary64 (- (7882090997 / 8796093022208)) = - (7882090997 / 8796093022208)"
    by (rule binary64_value [where n = 63 and r = 8264971449270272, THEN trans]) simp_all
  have r25: "binary64 (69609465425 / 17592186044416) = 69609465425 / 17592186044416"
    by (rule binary64_value [where n = 60 and r = 4561925926092800, THEN trans]) simp_all
  have r26: "binary64 (- (43893284864620043232489879 / 618970019642690137449562112)) = - (5109850883556069 / 72057594037927936)"
    by (rule binary64_value [where n = 56 and r = 5109850883556069, THEN trans]) simp_all
  have r27: "binary64 (22563456702605159 / 72057594037927936) = 2820432087825645 / 9007199254740992"
    by (rule binary64_value [where n = 54 and r = 5640864175651290, THEN trans]) simp_all
  have r28: "binary64 (- (5044538237613035 / 281474976710656)) = - (5044538237613035 / 281474976710656)"
    by (rule binary64_value [where n = 48 and r = 5044538237613035, THEN trans]) simp_all
  have r29: "binary64 (39761509426711949943345895 / 2475880078570760549798248448) = 2314424458117687 / 144115188075855872"
    by (rule binary64_value [where n = 58 and r = 4628848916235374, THEN trans]) simp_all
  have r30: "binary64 (- (10219823360035213 / 144115188075855872)) = - (2554955840008803 / 36028797018963968)"
    by (rule binary64_tie [where n = 56 and k = 5109911680017606, THEN trans]) simp_all
  have r31: "binary64 (- (69609113585 / 17592186044416)) = - (69609113585 / 17592186044416)"
    by (rule binary64_value [where n = 60 and r = 4561902867906560, THEN trans]) simp_all
  have r32: "binary64 (10995 / 549755813888) = 10995 / 549755813888"
    by (rule binary64_value [where n = 78 and r = 6044565173698560, THEN trans]) simp_all
  have r33: "binary64 (5568729086741289 / 70368744177664) = 5568729086741289 / 70368744177664"
    by (rule binary64_value [where n = 46 and r = 5568729086741289, THEN trans]) simp_all
  have r34: "binary64 (- (387634295523067703510311065 / 1237940039285380274899124224)) = - (5640821408059385 / 18014398509481984)"
    by (rule binary64_value [where n = 54 and r = 5640821408059385, THEN trans]) simp_all
  have r35: "binary64 (42767591905 / 18014398509481984) = 42767591905 / 18014398509481984"
    by (rule binary64_value [where n = 71 and r = 5605633806172160, THEN trans]) simp_all
  have r36: "binary64 (175573897244121993376770505 / 2475880078570760549798248448) = 5109872938020911 / 72057594037927936"
    by (rule binary64_value [where n = 56 and r = 5109872938020911, THEN trans]) simp_all
  have r37: "binary64 (- (38741996695 / 72057594037927936)) = - (38741996695 / 72057594037927936)"
    by (rule binary64_value [where n = 73 and r = 5077990990807040, THEN trans]) simp_all
  have r38: "binary64 (1 / 10000000000) = 7737125245533627 / 77371252455336267181195264"
    by (rule binary64_value [where n = 86 and r = 7737125245533627, THEN trans]) simp_all
  have r39: "binary64 (10995 / 1099511627776) = 10995 / 1099511627776"
    by (rule binary64_value [where n = 79 and r = 6044565173698560, THEN trans]) simp_all
  have r40: "binary64 (32985 / 549755813888) = 32985 / 549755813888"
    by (rule binary64_value [where n = 76 and r = 4533423880273920, THEN trans]) simp_all
  have r41: "binary64 (8553518381 / 216170496) = 5568755754453519 / 140737488355328"
    by (rule binary64_value [where n = 47 and r = 5568755754453519, THEN trans]) simp_all
  have r42: "binary64 (- (7748399339 / 864681984)) = - (5044584168160227 / 562949953421312)"
    by (rule binary64_value [where n = 49 and r = 5044584168160227, THEN trans]) simp_all
  have ring: "small_plot_ring = [[5568729086741289 / 140737488355328, - (5044594532608377 / 562949953421312)], [5568743160490125 / 140737488355328, - (5044594532608377 / 562949953421312)], [5568743160490125 / 140737488355328, - (5044538237613035 / 562949953421312)], [5568729086741289 / 140737488355328, - (5044538237613035 / 562949953421312)], [5568729086741289 / 140737488355328, - (5044594532608377 / 562949953421312)]]"
    by (simp add: small_plot_ring_def r1 r2 r3 r4 r5 r6 r7 r8 r9 r10 r11 r12 r13 r14 r15 r16 r17 r18 r19 r20 r21 r22 r23 r24 r25 r26 r27 r28 r29 r30 r31 r32 r33 r34 r35 r36 r37 r38 r39 r40 r41 r42)
  have c: "getPolygonCentroid binary64 [small_plot_ring]
     = (Fin (5568755754453519 / 140737488355328), Fin (- (5044584168160227 / 562949953421312)))"
    by (simp add: getPolygonCentroid_def ring Let_def r1 r2 r3 r4 r5 r6 r7 r8 r9 r10 r11 r12 r13 r14 r15 r16 r17 r18 r19 r20 r21 r22 r23 r24 r25 r26 r27 r28 r29 r30 r31 r32 r33 r34 r35 r36 r37 r38 r39 r40 r41 r42)
  have wf: "ring_wellformed small_plot_ring"
    by (simp add: ring ring_wellformed_def)
  have cl: "ring_closed small_plot_ring"
    by (simp add: ring ring_closed_def)
  have cv: "ring_convex small_plot_ring"
    by (simp add: ring ring_convex_def cross3_def px_def py_def)
  have va: "isValidGeometry (polygon_geometry
         [(39.5682, - 8.961), (39.5683, - 8.961), (39.5683, - 8.9609), (39.5682, - 8.9609),
          (39.5682, - 8.961)])"
    by (simp add: isValidGeometry_def polygon_geometry_def isValidRing_def)
  have mx: "list_all (\<lambda>c. c ! 0 \<le> 5568743160490125 / 140737488355328) small_plot_ring"
    by (simp add: ring)
  show ?thesis by (intro conjI wf cl cv va mx c) simp
qed

theorem centroid_outside_box_in_double_arithmetic_witness:
  "\<exists>cx cy. getPolygonCentroid binary64 [small_plot_ring] = (Fin cx, Fin cy)
     \<and> list_all (\<lambda>c. c ! 0 < cx) small_plot_ring"
proof -
  have "list_all (\<lambda>c. c ! 0 < 5568755754453519 / 140737488355328) small_plot_ring"
    using centroid_outside_box_in_double_arithmetic
    by (auto simp: list_all_iff)
  then show ?thesis
    using centroid_outside_box_in_double_arithmetic by blast
qed


end
